theory Spec2Isabelle
  imports Main "HOL-Library.Word"
begin

unbundle bit_operations_syntax

section \<open>LidarController.h: data model\<close>

type_synonym u8 = "8 word"

text \<open>The \<^verbatim>\<open>#define\<close>s of LidarController.h that the modelled functions use.\<close>

abbreviation SIGNAL_STRENGTH_REGISTER :: u8 where "SIGNAL_STRENGTH_REGISTER \<equiv> 0x0e"
abbreviation MEASURED_VALUE_REGISTER :: u8 where "MEASURED_VALUE_REGISTER \<equiv> 0x8f"
abbreviation CONTROL_REGISTER :: u8 where "CONTROL_REGISTER \<equiv> 0x00"
abbreviation OFFSET_REGISTER :: u8 where "OFFSET_REGISTER \<equiv> 0x13"
abbreviation LIDAR_TIMEOUT_MS :: nat where "LIDAR_TIMEOUT_MS \<equiv> 20"
abbreviation MAX_LIDARS :: nat where "MAX_LIDARS \<equiv> 8"
abbreviation MAX_NACKS :: nat where "MAX_NACKS \<equiv> 10"

text \<open>
  The C type \<^verbatim>\<open>int\<close>. On the AVR boards that this header programs (the \<^verbatim>\<open>TWBR\<close>
  branch of \<^verbatim>\<open>begin\<close>) it has 16 bits. An \<^verbatim>\<open>int\<close> is modelled as an integer between
  \<open>INT_MIN\<close> and \<open>INT_MAX\<close>; \<open>to_int16\<close> is the conversion of an out-of-range value to
  \<^verbatim>\<open>int\<close>, modulo \<open>2^16\<close>.
\<close>

abbreviation INT_MIN :: int where "INT_MIN \<equiv> - 32768"
abbreviation INT_MAX :: int where "INT_MAX \<equiv> 32767"

definition to_int16 :: "int \<Rightarrow> int" where
  "to_int16 v = (v + 32768) mod 65536 - 32768"

text \<open>
  The enumeration \<^verbatim>\<open>LIDAR_STATE\<close> (declared in LidarObject.h); these are the seven
  enumerators that \<^verbatim>\<open>spinOnce\<close> switches on and that \<^verbatim>\<open>setState\<close> is called with.
  The spec calls them POWERING_DOWN, AWAITING_RESET, RESET_IN_FLIGHT, NEEDS_CONFIGURE,
  ACQUISITION_READY, ACQUISITION_PENDING and ACQUISITION_COMPLETE, in this order.
\<close>

datatype LIDAR_STATE =
    SHUTING_DOWN
  | NEED_RESET
  | RESET_PENDING
  | NEED_CONFIGURE
  | ACQUISITION_READY
  | ACQUISITION_PENDING
  | ACQUISITION_DONE

text \<open>
  Modelled from the spec: the class \<^verbatim>\<open>LidarObject\<close> (LidarObject.h is not among the
  sources; the spec's SensorUnit, section 3). The fields are the members the controller
  reads and writes; \<open>nacksCount\<close> is the spec's "faultCount: integer \<ge> 0",
  \<open>distance\<close> and \<open>last_distance\<close> are C \<^verbatim>\<open>int\<close>s (see \<open>to_int16\<close> above).
  \<open>powered\<close> is the power-enable pin driven by \<^verbatim>\<open>on()\<close> and \<^verbatim>\<open>off()\<close>,
  \<open>timeReset\<close> the clock reading stored by \<^verbatim>\<open>timerUpdate()\<close>, and \<open>notified\<close>
  counts the calls of the observer callback \<^verbatim>\<open>notify_distance()\<close>.
\<close>

record LidarObject =
  address :: u8
  lidar_state :: LIDAR_STATE
  nacksCount :: nat
  distance :: int
  last_distance :: int
  strength :: u8
  powered :: bool
  timeReset :: nat
  notified :: nat

text \<open>
  Modelled from the spec: the methods of \<^verbatim>\<open>LidarObject\<close> that the controller calls.
  \<^verbatim>\<open>on()\<close>/\<^verbatim>\<open>off()\<close> toggle the power pin, \<^verbatim>\<open>timerUpdate()\<close> arms the timer at the
  current clock reading, \<^verbatim>\<open>checkTimer()\<close> polls "has elapsed" against the reset delay
  \<^verbatim>\<open>LIDAR_TIMEOUT_MS\<close>, \<^verbatim>\<open>resetNacksCount()\<close> clears the fault counter.
\<close>

definition lidar_on :: "LidarObject \<Rightarrow> LidarObject" where
  "lidar_on l = l\<lparr>powered := True\<rparr>"

definition lidar_off :: "LidarObject \<Rightarrow> LidarObject" where
  "lidar_off l = l\<lparr>powered := False\<rparr>"

definition timerUpdate :: "nat \<Rightarrow> LidarObject \<Rightarrow> LidarObject" where
  "timerUpdate now l = l\<lparr>timeReset := now\<rparr>"

definition checkTimer :: "nat \<Rightarrow> LidarObject \<Rightarrow> bool" where
  "checkTimer now l = (now - timeReset l > LIDAR_TIMEOUT_MS)"

definition resetNacksCount :: "LidarObject \<Rightarrow> LidarObject" where
  "resetNacksCount l = l\<lparr>nacksCount := 0\<rparr>"

definition notify_distance :: "LidarObject \<Rightarrow> LidarObject" where
  "notify_distance l = l\<lparr>notified := Suc (notified l)\<rparr>"

subsection \<open>The bus\<close>

text \<open>
  Modelled from the spec: the global \<^verbatim>\<open>I2C\<close> object (I2CFunctions.h is not among the
  sources; the spec's BusTransactor, section 4.1). The bus is a parameter: a state of
  any type \<open>'b\<close> and four operations on it. \<open>write_reg addr reg value\<close>
  (\<^verbatim>\<open>I2C.write\<close>) returns the nack flag (non-zero: the transaction failed). \<open>readByte addr reg buf\<close> gets the content
  of the caller's one-byte buffer and returns the nack flag with the buffer's content
  after the call. \<open>readWord addr reg\<close> returns the nack flag with the two bytes found
  in the caller's buffer after the call; both callers pass an uninitialised local
  array, so after a failed read these bytes are whatever the array held.
\<close>

record 'b I2C =
  isOnline :: "u8 \<Rightarrow> 'b \<Rightarrow> bool \<times> 'b"
  write_reg :: "u8 \<Rightarrow> u8 \<Rightarrow> u8 \<Rightarrow> 'b \<Rightarrow> u8 \<times> 'b"
  readByte :: "u8 \<Rightarrow> u8 \<Rightarrow> u8 \<Rightarrow> 'b \<Rightarrow> (u8 \<times> u8) \<times> 'b"
  readWord :: "u8 \<Rightarrow> u8 \<Rightarrow> 'b \<Rightarrow> (u8 \<times> u8 \<times> u8) \<times> 'b"

text \<open>The bus transactions a run performs, in order.\<close>

datatype bus_op =
    OpIsOnline u8
  | OpWrite u8 u8 u8
  | OpReadByte u8 u8
  | OpReadWord u8 u8

text \<open>
  What every sensor's processing shares: the controller's private latch
  \<^verbatim>\<open>resetOngoing\<close>, the bus with the log of its transactions, and the clock that the
  sensors' timers read.
\<close>

record 'b shared =
  resetOngoing :: bool
  bus :: 'b
  trace :: "bus_op list"
  clock :: nat

definition I2C_isOnline :: "'b I2C \<Rightarrow> u8 \<Rightarrow> 'b shared \<Rightarrow> bool \<times> 'b shared" where
  "I2C_isOnline io a e =
     (case isOnline io a (bus e) of
        (r, b) \<Rightarrow> (r, e\<lparr>bus := b, trace := trace e @ [OpIsOnline a]\<rparr>))"

definition I2C_write :: "'b I2C \<Rightarrow> u8 \<Rightarrow> u8 \<Rightarrow> u8 \<Rightarrow> 'b shared \<Rightarrow> u8 \<times> 'b shared" where
  "I2C_write io a r v e =
     (case write_reg io a r v (bus e) of
        (nack, b) \<Rightarrow> (nack, e\<lparr>bus := b, trace := trace e @ [OpWrite a r v]\<rparr>))"

definition I2C_readByte ::
  "'b I2C \<Rightarrow> u8 \<Rightarrow> u8 \<Rightarrow> u8 \<Rightarrow> 'b shared \<Rightarrow> (u8 \<times> u8) \<times> 'b shared" where
  "I2C_readByte io a r buf e =
     (case readByte io a r buf (bus e) of
        (res, b) \<Rightarrow> (res, e\<lparr>bus := b, trace := trace e @ [OpReadByte a r]\<rparr>))"

definition I2C_readWord ::
  "'b I2C \<Rightarrow> u8 \<Rightarrow> u8 \<Rightarrow> 'b shared \<Rightarrow> (u8 \<times> u8 \<times> u8) \<times> 'b shared" where
  "I2C_readWord io a r e =
     (case readWord io a r (bus e) of
        (res, b) \<Rightarrow> (res, e\<lparr>bus := b, trace := trace e @ [OpReadWord a r]\<rparr>))"

subsection \<open>The controller\<close>

text \<open>
  \<^verbatim>\<open>LidarObject* lidars[MAX_LIDARS]\<close>, \<^verbatim>\<open>count\<close> and (inside \<open>shared\<close>)
  \<^verbatim>\<open>resetOngoing\<close>. A slot that was never assigned holds an indeterminate pointer:
  \<open>None\<close>. Each assigned slot holds its own object.
\<close>

record 'b LidarController =
  lidars :: "LidarObject option list"
  count :: u8
  shared :: "'b shared"

definition init_controller :: "'b \<Rightarrow> 'b LidarController" where
  "init_controller b =
     \<lparr>lidars = replicate MAX_LIDARS None, count = 0,
      shared = \<lparr>resetOngoing = False, bus = b, trace = [], clock = 0\<rparr>\<rparr>"

section \<open>LidarController.h: the member functions\<close>

text \<open>
  Every member function reaches its sensor only as \<^verbatim>\<open>lidars[Lidar]->\<close>. The model
  passes the object that \<^verbatim>\<open>lidars[Lidar]\<close> points to in place of the index, and
  resolves the index once, in \<open>at_slot\<close> below. A function returns its C++ return
  value (if it has one), the object and the shared state. A function whose execution
  can have undefined behaviour in C++ returns an \<open>option\<close>: \<open>None\<close> is undefined
  behaviour, and no statement about a call with undefined behaviour is made.
\<close>

text \<open>\<^verbatim>\<open>shouldIncrementNack\<close> returns its argument \<open>nack\<close>, which the callers test.\<close>

definition shouldIncrementNack :: "u8 \<Rightarrow> LidarObject \<Rightarrow> LidarObject" where
  "shouldIncrementNack nack l =
     (if nack \<noteq> 0 then l\<lparr>nacksCount := nacksCount l + 1\<rparr> else l)"

definition configure ::
  "'b I2C \<Rightarrow> u8 \<Rightarrow> LidarObject \<Rightarrow> 'b shared \<Rightarrow> LidarObject \<times> 'b shared" where
  "configure io configuration l e =
     (case (if configuration = 0 then I2C_write io (address l) CONTROL_REGISTER 0x00 e
            else if configuration = 1 then I2C_write io (address l) 0x04 0x00 e
            else if configuration = 2 then I2C_write io (address l) 0x1c 0x20 e
            else if configuration = 3 then I2C_write io (address l) 0x1c 0x60 e
            else (0, e)) of
        (nack, e1) \<Rightarrow> (shouldIncrementNack nack l, e1))"

definition changeAddress ::
  "'b I2C \<Rightarrow> LidarObject \<Rightarrow> 'b shared \<Rightarrow> u8 \<times> LidarObject \<times> 'b shared" where
  "changeAddress io l e =
     (let lidar_new = address l in
      case I2C_isOnline io 0x62 e of (online62, e1) \<Rightarrow>
      if \<not> online62 then (6, shouldIncrementNack 1 l, e1)
      else case I2C_isOnline io lidar_new e1 of (online_new, e2) \<Rightarrow>
      if online_new then (5, shouldIncrementNack 1 l, e2)
      else case I2C_readWord io 0x62 0x96 e2 of ((nack0, serial0, serial1), e3) \<Rightarrow>
      let l3 = shouldIncrementNack nack0 l in
      case I2C_write io 0x62 0x18 serial0 e3 of (nack1, e4) \<Rightarrow>
      let l4 = shouldIncrementNack nack1 l3 in
      if nack1 \<noteq> 0 then (1, l4, e4)
      else case I2C_write io 0x62 0x19 serial1 e4 of (nack2, e5) \<Rightarrow>
      let l5 = shouldIncrementNack nack2 l4 in
      if nack2 \<noteq> 0 then (2, l5, e5)
      else case I2C_write io 0x62 0x1a lidar_new e5 of (nack3, e6) \<Rightarrow>
      let l6 = shouldIncrementNack nack3 l5 in
      if nack3 \<noteq> 0 then (3, l6, e6)
      else case I2C_write io 0x62 0x1e 0x08 e6 of (nack4, e7) \<Rightarrow>
      let l7 = shouldIncrementNack nack4 l6 in
      if nack4 \<noteq> 0 then (4, l7, e7)
      else (0, l7, e7))"

text \<open>\<^verbatim>\<open>status\<close>: the buffer is initialised with 171 before the read.\<close>

definition status ::
  "'b I2C \<Rightarrow> LidarObject \<Rightarrow> 'b shared \<Rightarrow> u8 \<times> LidarObject \<times> 'b shared" where
  "status io l e =
     (case I2C_readByte io (address l) 0x01 171 e of
        ((nack, data0), e1) \<Rightarrow> (data0, shouldIncrementNack nack l, e1))"

text \<open>
  \<^verbatim>\<open>async\<close> is declared \<^verbatim>\<open>uint8_t\<close> and has no \<^verbatim>\<open>return\<close> statement: after the write
  and the count of its nack, control flows off the end of a value-returning function,
  which is undefined behaviour in C++. Every call of \<^verbatim>\<open>async\<close> is \<open>None\<close>.
\<close>

definition async ::
  "'b I2C \<Rightarrow> LidarObject \<Rightarrow> 'b shared \<Rightarrow> (LidarObject \<times> 'b shared) option" where
  "async io l e =
     (case I2C_write io (address l) CONTROL_REGISTER 0x04 e of
        (nack, e1) \<Rightarrow> (let l1 = shouldIncrementNack nack l in None))"

text \<open>
  \<^verbatim>\<open>distance(Lidar, data)\<close>: returns the nack flag and the value written through
  \<^verbatim>\<open>*data\<close>, \<^verbatim>\<open>(distanceArray[0] << 8) + distanceArray[1]\<close>. The bytes are promoted to
  \<^verbatim>\<open>int\<close>; the shift of a first byte \<open>\<ge> 0x80\<close> does not fit the 16 bits and is
  converted by \<open>to_int16\<close>, to a negative value. The sum that follows cannot overflow.
\<close>

definition distance_read ::
  "'b I2C \<Rightarrow> LidarObject \<Rightarrow> 'b shared \<Rightarrow> u8 \<times> int \<times> LidarObject \<times> 'b shared" where
  "distance_read io l e =
     (case I2C_readWord io (address l) MEASURED_VALUE_REGISTER e of
        ((nackCatcher, d0, d1), e1) \<Rightarrow>
          (nackCatcher, to_int16 (push_bit 8 (uint d0)) + uint d1,
           shouldIncrementNack nackCatcher l, e1))"

text \<open>
  \<^verbatim>\<open>signalStrength(Lidar, signalStrengthArray)\<close>: \<open>buf\<close> is the content of the
  caller's buffer; returns the nack flag and the buffer afterwards.
\<close>

definition signalStrength ::
  "'b I2C \<Rightarrow> u8 \<Rightarrow> LidarObject \<Rightarrow> 'b shared \<Rightarrow> u8 \<times> u8 \<times> LidarObject \<times> 'b shared" where
  "signalStrength io buf l e =
     (case I2C_readByte io (address l) SIGNAL_STRENGTH_REGISTER buf e of
        ((nack, buf1), e1) \<Rightarrow> (nack, buf1, shouldIncrementNack nack l, e1))"

definition setState :: "LIDAR_STATE \<Rightarrow> LidarObject \<Rightarrow> LidarObject" where
  "setState st l = l\<lparr>lidar_state := st\<rparr>"

definition getState :: "LidarObject \<Rightarrow> LIDAR_STATE" where
  "getState l = lidar_state l"

text \<open>\<^verbatim>\<open>setOffset\<close> ignores the nack flag of its write.\<close>

definition setOffset :: "'b I2C \<Rightarrow> u8 \<Rightarrow> LidarObject \<Rightarrow> 'b shared \<Rightarrow> 'b shared" where
  "setOffset io data l e = snd (I2C_write io (address l) OFFSET_REGISTER data e)"

definition resetLidar :: "LidarObject \<Rightarrow> 'b shared \<Rightarrow> LidarObject" where
  "resetLidar l e = setState SHUTING_DOWN (timerUpdate (clock e) (lidar_off l))"

definition preReset :: "LidarObject \<Rightarrow> 'b shared \<Rightarrow> LidarObject \<times> 'b shared" where
  "preReset l e = (timerUpdate (clock e) (lidar_on l), e\<lparr>resetOngoing := True\<rparr>)"

definition postReset :: "'b I2C \<Rightarrow> LidarObject \<Rightarrow> 'b shared \<Rightarrow> LidarObject \<times> 'b shared" where
  "postReset io l e =
     (case changeAddress io l e of (code, l1, e1) \<Rightarrow> (l1, e1\<lparr>resetOngoing := False\<rparr>))"

definition checkNacks :: "LidarObject \<Rightarrow> bool \<times> LidarObject" where
  "checkNacks l =
     (if nacksCount l > MAX_NACKS then (True, resetNacksCount l) else (False, l))"

text \<open>\<^verbatim>\<open>bitRead(value, bit)\<close> of Arduino.h: \<^verbatim>\<open>((value) >> (bit)) & 0x01\<close>.\<close>

definition bitRead :: "u8 \<Rightarrow> nat \<Rightarrow> u8" where
  "bitRead v n = drop_bit n v AND 1"

text \<open>
  \<^verbatim>\<open>abs(a - b)\<close> on \<^verbatim>\<open>int\<close>s. The subtraction is undefined behaviour when its result
  is not an \<^verbatim>\<open>int\<close>, and so is \<^verbatim>\<open>abs\<close> of \<open>INT_MIN\<close> (Arduino.h:
  \<^verbatim>\<open>((x)>0?(x):-(x))\<close>).
\<close>

definition abs_diff :: "int \<Rightarrow> int \<Rightarrow> int option" where
  "abs_diff a b = (if INT_MIN < a - b \<and> a - b \<le> INT_MAX then Some \<bar>a - b\<bar> else None)"

text \<open>
  The \<^verbatim>\<open>switch (getState(i))\<close> of \<^verbatim>\<open>spinOnce\<close>, for the sensor of slot \<open>i\<close>. In the
  case \<open>ACQUISITION_PENDING\<close> the two operands of \<^verbatim>\<open>|\<close> are both evaluated.
\<close>

definition spin_case ::
  "'b I2C \<Rightarrow> LidarObject \<Rightarrow> 'b shared \<Rightarrow> (LidarObject \<times> 'b shared) option" where
  "spin_case io l e =
     (case getState l of
        NEED_CONFIGURE \<Rightarrow>
          (case configure io 2 l e of (l1, e1) \<Rightarrow> Some (setState ACQUISITION_READY l1, e1))
      | ACQUISITION_READY \<Rightarrow>
          (case async io l e of
             None \<Rightarrow> None
           | Some (l1, e1) \<Rightarrow> Some (setState ACQUISITION_PENDING l1, e1))
      | ACQUISITION_PENDING \<Rightarrow>
          (case status io l e of (st, l1, e1) \<Rightarrow>
             if bitRead st 0 = 0 then
               (case distance_read io l1 e1 of (nack, data, l2, e2) \<Rightarrow>
                  (case abs_diff data (distance l2) of
                     None \<Rightarrow> None
                   | Some ad \<Rightarrow>
                       let l3 = (if ad > 100 \<or> (data < 4 \<or> data > 1000)
                                 then shouldIncrementNack 1 l2 else l2);
                           l4 = l3\<lparr>last_distance := distance l3\<rparr>;
                           l5 = l4\<lparr>distance := data\<rparr>
                       in Some (setState ACQUISITION_DONE l5, e2)))
             else Some (l1, e1))
      | ACQUISITION_DONE \<Rightarrow>
          (case signalStrength io 0 l e of (nack, strength1, l1, e1) \<Rightarrow>
             let l2 = l1\<lparr>strength := strength1\<rparr>;
                 l3 = notify_distance l2;
                 e2 = setOffset io 0x00 l3 e1
             in Some (setState ACQUISITION_READY l3, e2))
      | NEED_RESET \<Rightarrow>
          (if \<not> resetOngoing e then
             (case preReset l e of (l1, e1) \<Rightarrow> Some (setState RESET_PENDING l1, e1))
           else Some (l, e))
      | RESET_PENDING \<Rightarrow>
          (if checkTimer (clock e) l then
             (case postReset io l e of (l1, e1) \<Rightarrow> Some (setState NEED_CONFIGURE l1, e1))
           else Some (l, e))
      | SHUTING_DOWN \<Rightarrow>
          (if checkTimer (clock e) l then
             (case postReset io l e of (l1, e1) \<Rightarrow> Some (setState NEED_RESET l1, e1))
           else Some (l, e)))"

text \<open>The fault check that ends the loop body: \<^verbatim>\<open>if (checkNacks(i)) resetLidar(i);\<close>\<close>

definition nack_check :: "LidarObject \<Rightarrow> 'b shared \<Rightarrow> LidarObject" where
  "nack_check l e = (case checkNacks l of (r, l1) \<Rightarrow> if r then resetLidar l1 e else l1)"

text \<open>One pass of the body of the \<^verbatim>\<open>for\<close> loop of \<^verbatim>\<open>spinOnce\<close>.\<close>

definition spin_slot ::
  "'b I2C \<Rightarrow> LidarObject \<Rightarrow> 'b shared \<Rightarrow> (LidarObject \<times> 'b shared) option" where
  "spin_slot io l e =
     (case spin_case io l e of
        None \<Rightarrow> None
      | Some (l1, e1) \<Rightarrow> Some (nack_check l1 e1, e1))"

text \<open>
  \<^verbatim>\<open>lidars[i]->\<close>: the object of slot \<open>i\<close>. An index outside the array and a slot
  that was never assigned designate no object; dereferencing them is undefined
  behaviour in C++, and \<open>None\<close> here.
\<close>

definition slot :: "'b LidarController \<Rightarrow> nat \<Rightarrow> LidarObject option" where
  "slot s i = (if i < length (lidars s) then lidars s ! i else None)"

definition at_slot ::
  "nat \<Rightarrow> (LidarObject \<Rightarrow> 'b shared \<Rightarrow> (LidarObject \<times> 'b shared) option) \<Rightarrow>
   'b LidarController \<Rightarrow> 'b LidarController option" where
  "at_slot i f s =
     (case slot s i of
        None \<Rightarrow> None
      | Some l \<Rightarrow>
          (case f l (shared s) of
             None \<Rightarrow> None
           | Some (l1, e1) \<Rightarrow> Some (s\<lparr>lidars := (lidars s)[i := Some l1], shared := e1\<rparr>)))"

text \<open>
  \<^verbatim>\<open>for (uint8_t i = 0; i < count; i++)\<close>: the loop body over the slots
  \<open>0, ..., count - 1\<close>, in this order.
\<close>

fun spin_slots ::
  "'b I2C \<Rightarrow> nat list \<Rightarrow> 'b LidarController \<Rightarrow> 'b LidarController option" where
  "spin_slots io [] s = Some s"
| "spin_slots io (i # js) s =
     (case at_slot i (spin_slot io) s of
        None \<Rightarrow> None
      | Some s1 \<Rightarrow> spin_slots io js s1)"

definition spinOnce :: "'b I2C \<Rightarrow> 'b LidarController \<Rightarrow> 'b LidarController option" where
  "spinOnce io s = spin_slots io [0..<unat (count s)] s"

text \<open>
  \<^verbatim>\<open>add(_Lidar, _id)\<close>: returns the success flag and the controller.
  \<^verbatim>\<open>count\<close> is a \<^verbatim>\<open>uint8_t\<close>: \<open>count s + 1\<close> wraps at 256.
\<close>

definition add ::
  "LidarObject \<Rightarrow> u8 \<Rightarrow> 'b LidarController \<Rightarrow> bool \<times> 'b LidarController" where
  "add lidar_arg id_arg s =
     (if unat id_arg \<ge> MAX_LIDARS then (False, s)
      else (True, s\<lparr>lidars := (lidars s)[unat id_arg := Some (resetLidar lidar_arg (shared s))],
                    count := count s + 1\<rparr>))"

definition getCount :: "'b LidarController \<Rightarrow> u8" where
  "getCount s = count s"

text \<open>
  The transition table of the spec (section 4.2, "single tick advances at most one edge
  per sensor"), written with the enumerators of the source: \<open>spec_edge a b\<close> holds when
  the table has a row from \<open>a\<close> to a different state \<open>b\<close>. The two rows that wait
  (\<open>AWAITING_RESET\<close> with the sequencer busy, \<open>ACQUISITION_PENDING\<close> with the busy flag
  set) stay in their state and are no edges.
\<close>

definition spec_edge :: "LIDAR_STATE \<Rightarrow> LIDAR_STATE \<Rightarrow> bool" where
  "spec_edge a b =
     (a = SHUTING_DOWN \<and> b = NEED_RESET \<or>
      a = NEED_RESET \<and> b = RESET_PENDING \<or>
      a = RESET_PENDING \<and> b = NEED_CONFIGURE \<or>
      a = NEED_CONFIGURE \<and> b = ACQUISITION_READY \<or>
      a = ACQUISITION_READY \<and> b = ACQUISITION_PENDING \<or>
      a = ACQUISITION_PENDING \<and> b = ACQUISITION_DONE \<or>
      a = ACQUISITION_DONE \<and> b = ACQUISITION_READY)"

text \<open>
  The transition table of the spec again, as the row the state case selects:
  \<open>spec_next a\<close> is the target of the row that leaves \<open>a\<close>, and \<open>spec_waits io l e\<close>
  is the condition on which the sensor \<open>l\<close> waits in its state instead: the timer has
  not elapsed (\<open>SHUTING_DOWN\<close>, \<open>RESET_PENDING\<close>), the reset sequencer is busy
  (\<open>NEED_RESET\<close>), bit 0 of the status register as read from the bus is set
  (\<open>ACQUISITION_PENDING\<close>). The other states never wait.
\<close>

definition spec_next :: "LIDAR_STATE \<Rightarrow> LIDAR_STATE" where
  "spec_next a =
     (case a of
        SHUTING_DOWN \<Rightarrow> NEED_RESET
      | NEED_RESET \<Rightarrow> RESET_PENDING
      | RESET_PENDING \<Rightarrow> NEED_CONFIGURE
      | NEED_CONFIGURE \<Rightarrow> ACQUISITION_READY
      | ACQUISITION_READY \<Rightarrow> ACQUISITION_PENDING
      | ACQUISITION_PENDING \<Rightarrow> ACQUISITION_DONE
      | ACQUISITION_DONE \<Rightarrow> ACQUISITION_READY)"

definition spec_waits :: "'b I2C \<Rightarrow> LidarObject \<Rightarrow> 'b shared \<Rightarrow> bool" where
  "spec_waits io l e =
     (case lidar_state l of
        SHUTING_DOWN \<Rightarrow> \<not> checkTimer (clock e) l
      | NEED_RESET \<Rightarrow> resetOngoing e
      | RESET_PENDING \<Rightarrow> \<not> checkTimer (clock e) l
      | NEED_CONFIGURE \<Rightarrow> False
      | ACQUISITION_READY \<Rightarrow> False
      | ACQUISITION_PENDING \<Rightarrow>
          bitRead (snd (fst (readByte io (address l) 0x01 171 (bus e)))) 0 \<noteq> 0
      | ACQUISITION_DONE \<Rightarrow> False)"

text \<open>
  A sequence of registration calls \<^verbatim>\<open>add(_Lidar, _id)\<close>, run in order from the
  controller \<open>s\<close>; the returned flags are dropped.
\<close>

fun add_all :: "(LidarObject \<times> u8) list \<Rightarrow> 'b LidarController \<Rightarrow> 'b LidarController" where
  "add_all [] s = s"
| "add_all ((l, i) # rs) s = add_all rs (snd (add l i s))"

text \<open>
  The driver's calls. Each call happens at a clock reading: \<open>Add t l i\<close> is
  \<^verbatim>\<open>add(l, i)\<close> at time \<open>t\<close>, \<open>SpinOnce t\<close> is a tick of the loop at time \<open>t\<close>.
  \<open>run\<close> performs a list of calls in order; it is \<open>None\<close> when a tick has undefined
  behaviour.
\<close>

definition at_time :: "nat \<Rightarrow> 'b LidarController \<Rightarrow> 'b LidarController" where
  "at_time t s = s\<lparr>shared := (shared s)\<lparr>clock := t\<rparr>\<rparr>"

datatype call = Add nat LidarObject u8 | SpinOnce nat

fun run :: "'b I2C \<Rightarrow> call list \<Rightarrow> 'b LidarController \<Rightarrow> 'b LidarController option" where
  "run io [] s = Some s"
| "run io (Add t l i # cs) s = run io cs (snd (add l i (at_time t s)))"
| "run io (SpinOnce t # cs) s =
     (case spinOnce io (at_time t s) of
        None \<Rightarrow> None
      | Some s1 \<Rightarrow> run io cs s1)"

text \<open>
  The sensors that are in a reset phase (\<open>RESET_PENDING\<close> or \<open>SHUTING_DOWN\<close>) with
  their power enabled, counted over the registered slots \<open>0, ..., count - 1\<close>.
\<close>

definition in_reset_powered :: "LidarObject option \<Rightarrow> bool" where
  "in_reset_powered x =
     (case x of
        None \<Rightarrow> False
      | Some l \<Rightarrow> (lidar_state l = RESET_PENDING \<or> lidar_state l = SHUTING_DOWN) \<and> powered l)"

definition reset_powered :: "'b LidarController \<Rightarrow> nat" where
  "reset_powered s = length (filter in_reset_powered (take (unat (count s)) (lidars s)))"

section \<open>Concrete inputs\<close>

text \<open>
  A stateless bus for concrete runs: \<open>online\<close> says which addresses answer the probe,
  every write returns \<open>wnack\<close>, every byte read returns the nack flag \<open>fst rb\<close> and
  stores \<open>snd rb\<close> in the buffer only when it succeeds, every word read returns \<open>rw\<close>.
\<close>

definition stub_bus :: "(u8 \<Rightarrow> bool) \<Rightarrow> u8 \<Rightarrow> u8 \<times> u8 \<Rightarrow> u8 \<times> u8 \<times> u8 \<Rightarrow> unit I2C" where
  "stub_bus online wnack rb rw =
     \<lparr>isOnline = (\<lambda>a b. (online a, b)),
      write_reg = (\<lambda>a r v b. (wnack, b)),
      readByte = (\<lambda>a r buf b. ((fst rb, if fst rb = 0 then snd rb else buf), b)),
      readWord = (\<lambda>a r b. (rw, b))\<rparr>"

text \<open>A sensor object with bus address \<open>a\<close>, in state \<open>st\<close>, with \<open>n\<close> counted faults
  and current distance \<open>d\<close>.\<close>

definition sensor :: "u8 \<Rightarrow> LIDAR_STATE \<Rightarrow> nat \<Rightarrow> int \<Rightarrow> LidarObject" where
  "sensor a st n d =
     \<lparr>address = a, lidar_state = st, nacksCount = n, distance = d, last_distance = 0,
      strength = 0, powered = False, timeReset = 0, notified = 0\<rparr>"

definition shared0 :: "unit shared" where
  "shared0 = \<lparr>resetOngoing = False, bus = (), trace = [], clock = 0\<rparr>"

text \<open>A controller whose only registered sensor is \<open>l\<close>, in slot 0.\<close>

definition one_sensor :: "LidarObject \<Rightarrow> unit LidarController" where
  "one_sensor l = \<lparr>lidars = Some l # replicate 7 None, count = 1, shared = shared0\<rparr>"

section \<open>Address reassignment\<close>

lemmas bus_defs = I2C_isOnline_def I2C_write_def I2C_readByte_def I2C_readWord_def

lemma changeAddress_offline:
  assumes "isOnline io 0x62 (bus e) = (False, b1)"
  shows "changeAddress io l e =
           (6, l\<lparr>nacksCount := nacksCount l + 1\<rparr>,
            e\<lparr>bus := b1, trace := trace e @ [OpIsOnline 0x62]\<rparr>)"
  using assms
  by (simp add: changeAddress_def I2C_isOnline_def shouldIncrementNack_def Let_def)

lemma changeAddress_conflict:
  assumes "isOnline io 0x62 (bus e) = (True, b1)"
    and "isOnline io (address l) b1 = (True, b2)"
  shows "changeAddress io l e =
           (5, l\<lparr>nacksCount := nacksCount l + 1\<rparr>,
            e\<lparr>bus := b2, trace := trace e @ [OpIsOnline 0x62, OpIsOnline (address l)]\<rparr>)"
  using assms
  by (simp add: changeAddress_def I2C_isOnline_def shouldIncrementNack_def Let_def)

lemma changeAddress_effect:
  assumes "changeAddress io l e = (code, l', e')"
  shows "l' = l\<lparr>nacksCount := nacksCount l'\<rparr> \<and> nacksCount l \<le> nacksCount l' \<and>
         nacksCount l' \<le> nacksCount l + 2 \<and>
         resetOngoing e' = resetOngoing e \<and> clock e' = clock e"
proof -
  obtain r1 b1 where p1: "isOnline io 0x62 (bus e) = (r1, b1)"
    by (cases "isOnline io 0x62 (bus e)")
  obtain r2 b2 where p2: "isOnline io (address l) b1 = (r2, b2)"
    by (cases "isOnline io (address l) b1")
  obtain n0 s0 s1 b3 where rw: "readWord io 0x62 0x96 b2 = ((n0, s0, s1), b3)"
    by (cases "readWord io 0x62 0x96 b2") auto
  obtain n1 b4 where w1: "write_reg io 0x62 0x18 s0 b3 = (n1, b4)"
    by (cases "write_reg io 0x62 0x18 s0 b3")
  obtain n2 b5 where w2: "write_reg io 0x62 0x19 s1 b4 = (n2, b5)"
    by (cases "write_reg io 0x62 0x19 s1 b4")
  obtain n3 b6 where w3: "write_reg io 0x62 0x1a (address l) b5 = (n3, b6)"
    by (cases "write_reg io 0x62 0x1a (address l) b5")
  obtain n4 b7 where w4: "write_reg io 0x62 0x1e 0x08 b6 = (n4, b7)"
    by (cases "write_reg io 0x62 0x1e 0x08 b6")
  from assms show ?thesis
    by (auto simp: changeAddress_def bus_defs p1 p2 rw w1 w2 w3 w4 shouldIncrementNack_def
        Let_def split: if_splits)
qed

text \<open>
  Claim C5. When the factory address 0x62 does not answer the online probe,
  \<^verbatim>\<open>changeAddress\<close> returns 6, and the probe is the only bus transaction of the call:
  the log grows by exactly \<open>OpIsOnline 0x62\<close> and the bus is left in the state the
  probe left it in, so no register is read or written. (The sensor's fault counter is
  incremented by one.)
\<close>

theorem C5_unresponsive_returns_6_without_bus_access:
  assumes "\<not> fst (isOnline io 0x62 (bus e))"
  shows "changeAddress io l e =
           (6, l\<lparr>nacksCount := nacksCount l + 1\<rparr>,
            e\<lparr>bus := snd (isOnline io 0x62 (bus e)), trace := trace e @ [OpIsOnline 0x62]\<rparr>)"
proof -
  obtain r b1 where probe: "isOnline io 0x62 (bus e) = (r, b1)"
    by (cases "isOnline io 0x62 (bus e)")
  with assms have "isOnline io 0x62 (bus e) = (False, b1)" by simp
  then show ?thesis by (simp add: changeAddress_offline)
qed

theorem C5_witness:
  "\<not> fst (isOnline (stub_bus (\<lambda>a. False) 0 (0, 0) (0, 0, 0)) 0x62 (bus shared0)) \<and>
   changeAddress (stub_bus (\<lambda>a. False) 0 (0, 0) (0, 0, 0)) (sensor 0x64 SHUTING_DOWN 3 0) shared0 =
     (6, sensor 0x64 SHUTING_DOWN 4 0, shared0\<lparr>trace := [OpIsOnline 0x62]\<rparr>)"
proof -
  have h: "\<not> fst (isOnline (stub_bus (\<lambda>a. False) 0 (0, 0) (0, 0, 0)) 0x62 (bus shared0))"
    by (simp add: stub_bus_def)
  show ?thesis
    using h C5_unresponsive_returns_6_without_bus_access
      [OF h, of "sensor 0x64 SHUTING_DOWN 3 0"]
    by (simp add: stub_bus_def shared0_def sensor_def)
qed

text \<open>
  Claim C6, as amended. When both probes pass and the read of the two identifier bytes
  from 0x62 fails (\<open>n0 \<noteq> 0\<close>), \<^verbatim>\<open>changeAddress\<close> does not stop: it counts the failure
  in the fault counter and goes on to the four writes, in order: the bytes \<open>s0\<close> and
  \<open>s1\<close> left in its buffer to the registers 0x18 and 0x19, the target address to 0x1a,
  the value 0x08 to 0x1e, all at address 0x62. It stops at the first write that fails
  (\<open>n1\<close> to \<open>n4\<close> are the nack flags of the writes) and returns its number, 1 to 4,
  with the fault counter grown by two; when all four writes succeed it returns 0, with
  the fault counter grown by one. No other bus transaction is made.
\<close>

theorem C6_failed_serial_read_is_only_counted:
  assumes p1: "isOnline io 0x62 (bus e) = (True, b1)"
    and p2: "isOnline io (address l) b1 = (False, b2)"
    and rw: "readWord io 0x62 0x96 b2 = ((n0, s0, s1), b3)"
    and fail: "n0 \<noteq> 0"
    and w1: "write_reg io 0x62 0x18 s0 b3 = (n1, b4)"
    and w2: "write_reg io 0x62 0x19 s1 b4 = (n2, b5)"
    and w3: "write_reg io 0x62 0x1a (address l) b5 = (n3, b6)"
    and w4: "write_reg io 0x62 0x1e 0x08 b6 = (n4, b7)"
  shows "changeAddress io l e =
     (if n1 \<noteq> 0 then
        (1, l\<lparr>nacksCount := nacksCount l + 2\<rparr>,
         e\<lparr>bus := b4,
           trace := trace e @ [OpIsOnline 0x62, OpIsOnline (address l), OpReadWord 0x62 0x96,
                               OpWrite 0x62 0x18 s0]\<rparr>)
      else if n2 \<noteq> 0 then
        (2, l\<lparr>nacksCount := nacksCount l + 2\<rparr>,
         e\<lparr>bus := b5,
           trace := trace e @ [OpIsOnline 0x62, OpIsOnline (address l), OpReadWord 0x62 0x96,
                               OpWrite 0x62 0x18 s0, OpWrite 0x62 0x19 s1]\<rparr>)
      else if n3 \<noteq> 0 then
        (3, l\<lparr>nacksCount := nacksCount l + 2\<rparr>,
         e\<lparr>bus := b6,
           trace := trace e @ [OpIsOnline 0x62, OpIsOnline (address l), OpReadWord 0x62 0x96,
                               OpWrite 0x62 0x18 s0, OpWrite 0x62 0x19 s1,
                               OpWrite 0x62 0x1a (address l)]\<rparr>)
      else if n4 \<noteq> 0 then
        (4, l\<lparr>nacksCount := nacksCount l + 2\<rparr>,
         e\<lparr>bus := b7,
           trace := trace e @ [OpIsOnline 0x62, OpIsOnline (address l), OpReadWord 0x62 0x96,
                               OpWrite 0x62 0x18 s0, OpWrite 0x62 0x19 s1,
                               OpWrite 0x62 0x1a (address l), OpWrite 0x62 0x1e 0x08]\<rparr>)
      else
        (0, l\<lparr>nacksCount := nacksCount l + 1\<rparr>,
         e\<lparr>bus := b7,
           trace := trace e @ [OpIsOnline 0x62, OpIsOnline (address l), OpReadWord 0x62 0x96,
                               OpWrite 0x62 0x18 s0, OpWrite 0x62 0x19 s1,
                               OpWrite 0x62 0x1a (address l), OpWrite 0x62 0x1e 0x08]\<rparr>))"
  using fail
  by (simp add: changeAddress_def bus_defs p1 p2 rw w1 w2 w3 w4 shouldIncrementNack_def Let_def)

text \<open>
  The witness: only 0x62 answers the probe, the word read fails leaving 0xAB, 0xCD in the
  buffer, every write fails.
\<close>

theorem C6_witness:
  "changeAddress (stub_bus (\<lambda>a. a = 0x62) 1 (0, 0) (1, 0xAB, 0xCD))
     (sensor 0x64 RESET_PENDING 0 0) shared0 =
     (1, sensor 0x64 RESET_PENDING 2 0,
      shared0\<lparr>trace := [OpIsOnline 0x62, OpIsOnline 0x64, OpReadWord 0x62 0x96,
                         OpWrite 0x62 0x18 0xAB]\<rparr>)"
proof -
  let ?io = "stub_bus (\<lambda>a. a = 0x62) 1 (0, 0) (1, 0xAB, 0xCD)"
  let ?l = "sensor 0x64 RESET_PENDING 0 0"
  have p1: "isOnline ?io 0x62 (bus shared0) = (True, ())"
    by (simp add: stub_bus_def)
  have p2: "isOnline ?io (address ?l) () = (False, ())"
    by (simp add: stub_bus_def sensor_def)
  have rw: "readWord ?io 0x62 0x96 () = ((1, 0xAB, 0xCD), ())"
    by (simp add: stub_bus_def)
  have fail: "(1 :: u8) \<noteq> 0"
    by simp
  have w1: "write_reg ?io 0x62 0x18 0xAB () = (1, ())"
    by (simp add: stub_bus_def)
  have w2: "write_reg ?io 0x62 0x19 0xCD () = (1, ())"
    by (simp add: stub_bus_def)
  have w3: "write_reg ?io 0x62 0x1a (address ?l) () = (1, ())"
    by (simp add: stub_bus_def)
  have w4: "write_reg ?io 0x62 0x1e 0x08 () = (1, ())"
    by (simp add: stub_bus_def)
  show ?thesis
    using C6_failed_serial_read_is_only_counted [OF p1 p2 rw fail w1 w2 w3 w4]
    by (simp add: sensor_def shared0_def)
qed

text \<open>
  The claim as stated fails: only 0x62 answers the probe, the word read fails, every
  write succeeds. The routine performs all four writes (the first two with the bytes
  0xAB, 0xCD left in the buffer) and returns 0, the success code.
\<close>

theorem C6_counterexample:
  "fst (fst (readWord (stub_bus (\<lambda>a. a = 0x62) 0 (0, 0) (1, 0xAB, 0xCD)) 0x62 0x96 ())) \<noteq> 0 \<and>
   changeAddress (stub_bus (\<lambda>a. a = 0x62) 0 (0, 0) (1, 0xAB, 0xCD))
     (sensor 0x64 RESET_PENDING 0 0) shared0 =
     (0, sensor 0x64 RESET_PENDING 1 0,
      shared0\<lparr>trace := [OpIsOnline 0x62, OpIsOnline 0x64, OpReadWord 0x62 0x96,
                         OpWrite 0x62 0x18 0xAB, OpWrite 0x62 0x19 0xCD,
                         OpWrite 0x62 0x1a 0x64, OpWrite 0x62 0x1e 0x08]\<rparr>)"
  by (simp add: changeAddress_def bus_defs shouldIncrementNack_def Let_def stub_bus_def
      sensor_def shared0_def)

section \<open>The acquisition states\<close>

lemma to_int16_shifted_byte:
  "to_int16 (push_bit 8 (uint (d0 :: u8))) + uint (d1 :: u8) =
     (if d0 < 0x80 then 256 * uint d0 + uint d1 else 256 * uint d0 + uint d1 - 65536)"
proof -
  have b: "0 \<le> uint d0" "uint d0 < 256"
    using uint_lt2p [of d0] by simp_all
  have p: "push_bit 8 (uint d0) = 256 * uint d0"
    by (simp add: push_bit_eq_mult)
  show ?thesis
  proof (cases "d0 < 0x80")
    case True
    then have "uint d0 < 128" by (simp add: word_less_alt)
    with b have "(256 * uint d0 + 32768) mod 65536 = 256 * uint d0 + 32768"
      by (intro mod_pos_pos_trivial) simp_all
    with True show ?thesis unfolding to_int16_def p by simp
  next
    case False
    then have "128 \<le> uint d0" by (simp add: word_less_alt)
    with b have "(256 * uint d0 + 32768 - 65536) mod 65536 = 256 * uint d0 + 32768 - 65536"
      by (intro mod_pos_pos_trivial) simp_all
    moreover have "(256 * uint d0 + 32768 - 65536) mod 65536 = (256 * uint d0 + 32768) mod 65536"
      by (rule minus_mod_self2)
    ultimately have "(256 * uint d0 + 32768) mod 65536 = 256 * uint d0 + 32768 - 65536"
      by simp
    with False show ?thesis unfolding to_int16_def p by simp
  qed
qed

lemma status_eq:
  assumes "readByte io (address l) 0x01 171 (bus e) = ((nack, d), b1)"
  shows "status io l e =
           (d, shouldIncrementNack nack l,
            e\<lparr>bus := b1, trace := trace e @ [OpReadByte (address l) 0x01]\<rparr>)"
  using assms by (simp add: status_def I2C_readByte_def)

lemma distance_read_eq:
  assumes "readWord io (address l) 0x8f (bus e) = ((nk, d0, d1), b2)"
  shows "distance_read io l e =
           (nk, (if d0 < 0x80 then 256 * uint d0 + uint d1 else 256 * uint d0 + uint d1 - 65536),
            shouldIncrementNack nk l,
            e\<lparr>bus := b2, trace := trace e @ [OpReadWord (address l) 0x8f]\<rparr>)"
  using assms unfolding distance_read_def I2C_readWord_def to_int16_shifted_byte by simp

lemma shouldIncrementNack_fields [simp]:
  "address (shouldIncrementNack n l) = address l"
  "lidar_state (shouldIncrementNack n l) = lidar_state l"
  "distance (shouldIncrementNack n l) = distance l"
  "powered (shouldIncrementNack n l) = powered l"
  "timeReset (shouldIncrementNack n l) = timeReset l"
  by (simp_all add: shouldIncrementNack_def)

lemma abs_diff_Some:
  assumes "INT_MIN < a - b" and "a - b \<le> INT_MAX"
  shows "abs_diff a b = Some \<bar>a - b\<bar>"
  using assms by (simp add: abs_diff_def)

lemma spin_case_pending_busy:
  assumes "lidar_state l = ACQUISITION_PENDING"
    and "readByte io (address l) 0x01 171 (bus e) = ((n, st), b1)"
    and "bitRead st 0 \<noteq> 0"
  shows "spin_case io l e =
           Some (shouldIncrementNack n l,
                 e\<lparr>bus := b1, trace := trace e @ [OpReadByte (address l) 0x01]\<rparr>)"
  using assms by (simp add: spin_case_def getState_def status_eq)

lemma spin_case_pending_done:
  assumes "lidar_state l = ACQUISITION_PENDING"
    and "readByte io (address l) 0x01 171 (bus e) = ((n, st), b1)"
    and "bitRead st 0 = 0"
    and "readWord io (address l) 0x8f b1 = ((nk, d0, d1), b2)"
    and "d = (if d0 < 0x80 then 256 * uint d0 + uint d1 else 256 * uint d0 + uint d1 - 65536)"
    and "INT_MIN < d - distance l" and "d - distance l \<le> INT_MAX"
  shows "spin_case io l e =
           Some (l\<lparr>lidar_state := ACQUISITION_DONE,
                   nacksCount := nacksCount l + (if n \<noteq> 0 then 1 else 0)
                     + (if nk \<noteq> 0 then 1 else 0)
                     + (if \<bar>d - distance l\<bar> > 100 \<or> d < 4 \<or> d > 1000 then 1 else 0),
                   last_distance := distance l,
                   distance := d\<rparr>,
                 e\<lparr>bus := b2,
                   trace := trace e @ [OpReadByte (address l) 0x01, OpReadWord (address l) 0x8f]\<rparr>)"
proof -
  have r: "distance_read io (shouldIncrementNack n l)
             (e\<lparr>bus := b1, trace := trace e @ [OpReadByte (address l) 0x01]\<rparr>) =
           (nk, d, shouldIncrementNack nk (shouldIncrementNack n l),
            e\<lparr>bus := b2,
              trace := trace e @ [OpReadByte (address l) 0x01, OpReadWord (address l) 0x8f]\<rparr>)"
    using distance_read_eq [of io "shouldIncrementNack n l"
        "e\<lparr>bus := b1, trace := trace e @ [OpReadByte (address l) 0x01]\<rparr>" nk d0 d1 b2]
      assms(4,5) by simp
  have a: "abs_diff d (distance l) = Some \<bar>d - distance l\<bar>"
    by (rule abs_diff_Some [OF assms(6,7)])
  show ?thesis
    using assms(1,3)
    by (simp add: spin_case_def getState_def status_eq [OF assms(2)] r a)
       (simp add: setState_def Let_def shouldIncrementNack_def)
qed

lemma nack_check_eq:
  "nack_check l e =
     (if MAX_NACKS < nacksCount l
      then l\<lparr>nacksCount := 0, powered := False, timeReset := clock e,
              lidar_state := SHUTING_DOWN\<rparr>
      else l)"
  by (simp add: nack_check_def checkNacks_def resetNacksCount_def resetLidar_def
      setState_def timerUpdate_def lidar_off_def)

lemma nack_check_state:
  "lidar_state (nack_check l e) = (if MAX_NACKS < nacksCount l then SHUTING_DOWN else lidar_state l)"
  by (simp add: nack_check_eq)

lemma spin_slot_eq:
  assumes "spin_case io l e = Some (l1, e1)"
  shows "spin_slot io l e = Some (nack_check l1 e1, e1)"
  using assms by (simp add: spin_slot_def)

text \<open>
  Claim C4, as amended. A sensor in \<open>ACQUISITION_PENDING\<close> whose status read succeeds
  with bit 0 clear, and whose distance read succeeds with the bytes \<open>d0\<close>, \<open>d1\<close>; \<open>d\<close>
  is the \<^verbatim>\<open>int\<close> that the code composes from them, and \<open>d - distance\<close> is an
  \<^verbatim>\<open>int\<close>. The state case (result \<open>l1\<close>) stores \<open>d\<close> as the current distance whatever
  its value, moves the prior distance to \<open>last_distance\<close>, sets the state to
  \<open>ACQUISITION_DONE\<close>, and adds exactly one to the fault counter when
  \<open>|d - distance| > 100\<close> or \<open>d < 4\<close> or \<open>d > 1000\<close>, nothing otherwise. The fault check
  that ends the same tick leaves \<open>l1\<close> as it is unless its counter now exceeds
  \<^verbatim>\<open>MAX_NACKS\<close>; then the tick ends with the counter at 0 and the sensor in
  \<open>SHUTING_DOWN\<close>, \<open>d\<close> still stored.
\<close>

theorem C4_suspect_reading_is_counted_and_stored:
  assumes "lidar_state l = ACQUISITION_PENDING"
    and "readByte io (address l) 0x01 171 (bus e) = ((0, st), b1)"
    and "bitRead st 0 = 0"
    and "readWord io (address l) 0x8f b1 = ((0, d0, d1), b2)"
    and "d = (if d0 < 0x80 then 256 * uint d0 + uint d1 else 256 * uint d0 + uint d1 - 65536)"
    and "INT_MIN < d - distance l" and "d - distance l \<le> INT_MAX"
    and "l1 = l\<lparr>lidar_state := ACQUISITION_DONE,
                  nacksCount := (if \<bar>d - distance l\<bar> > 100 \<or> d < 4 \<or> d > 1000
                                 then nacksCount l + 1 else nacksCount l),
                  last_distance := distance l,
                  distance := d\<rparr>"
    and "e1 = e\<lparr>bus := b2,
                  trace := trace e @ [OpReadByte (address l) 0x01, OpReadWord (address l) 0x8f]\<rparr>"
  shows "spin_case io l e = Some (l1, e1) \<and>
         spin_slot io l e =
           Some (if MAX_NACKS < nacksCount l1
                 then l1\<lparr>nacksCount := 0, powered := False, timeReset := clock e,
                         lidar_state := SHUTING_DOWN\<rparr>
                 else l1, e1)"
proof -
  have c: "spin_case io l e = Some (l1, e1)"
    using spin_case_pending_done [OF assms(1-7)] assms(8,9) by simp
  have "clock e1 = clock e"
    using assms(9) by simp
  with spin_slot_eq [OF c] c show ?thesis
    by (simp add: nack_check_eq)
qed

text \<open>
  The witness: the reading 1500 = 0x05DC, out of the range 4 to 1000, after a current
  distance of 1450: it is stored, and the counter goes from 2 to 3.
\<close>

theorem C4_witness:
  "spin_slot (stub_bus (\<lambda>a. True) 0 (0, 0) (0, 0x05, 0xDC))
     (sensor 0x64 ACQUISITION_PENDING 2 1450) shared0 =
     Some (\<lparr>address = 0x64, lidar_state = ACQUISITION_DONE, nacksCount = 3, distance = 1500,
             last_distance = 1450, strength = 0, powered = False, timeReset = 0, notified = 0\<rparr>,
           shared0\<lparr>trace := [OpReadByte 0x64 0x01, OpReadWord 0x64 0x8f]\<rparr>)"
proof -
  let ?io = "stub_bus (\<lambda>a. True) 0 (0, 0) (0, 0x05, 0xDC)"
  let ?l = "sensor 0x64 ACQUISITION_PENDING 2 1450"
  let ?l1 = "\<lparr>address = 0x64, lidar_state = ACQUISITION_DONE, nacksCount = 3, distance = 1500,
             last_distance = 1450, strength = 0, powered = False, timeReset = 0, notified = 0\<rparr>"
  let ?e1 = "shared0\<lparr>trace := [OpReadByte 0x64 0x01, OpReadWord 0x64 0x8f]\<rparr>"
  have h1: "lidar_state ?l = ACQUISITION_PENDING"
    by (simp add: sensor_def)
  have h2: "readByte ?io (address ?l) 0x01 171 (bus shared0) = ((0, 0), ())"
    by (simp add: stub_bus_def)
  have h3: "bitRead 0 0 = 0"
    by (simp add: bitRead_def)
  have h4: "readWord ?io (address ?l) 0x8f () = ((0, 0x05, 0xDC), ())"
    by (simp add: stub_bus_def)
  have h5: "(1500 :: int) = (if (0x05 :: u8) < 0x80 then 256 * uint (0x05 :: u8) + uint (0xDC :: u8)
                             else 256 * uint (0x05 :: u8) + uint (0xDC :: u8) - 65536)"
    by simp
  have h6: "INT_MIN < 1500 - distance ?l" and h7: "1500 - distance ?l \<le> INT_MAX"
    by (simp_all add: sensor_def)
  have h8: "?l1 = ?l\<lparr>lidar_state := ACQUISITION_DONE,
                  nacksCount := (if \<bar>1500 - distance ?l\<bar> > 100 \<or> (1500 :: int) < 4 \<or> (1500 :: int) > 1000
                                 then nacksCount ?l + 1 else nacksCount ?l),
                  last_distance := distance ?l,
                  distance := 1500\<rparr>"
    by (simp add: sensor_def)
  have h9: "?e1 = shared0\<lparr>bus := (),
                  trace := trace shared0 @ [OpReadByte (address ?l) 0x01, OpReadWord (address ?l) 0x8f]\<rparr>"
    by (simp add: sensor_def shared0_def)
  show ?thesis
    using C4_suspect_reading_is_counted_and_stored [OF h1 h2 h3 h4 h5 h6 h7 h8 h9]
    by simp
qed

text \<open>
  The claim as stated fails: the same reading 1500 after a current distance of 1450, with
  10 counted faults. The tick stores 1500, but it ends with the fault counter at 0, not
  at 11, and with the sensor in \<open>SHUTING_DOWN\<close>, not in \<open>ACQUISITION_DONE\<close>: the fault
  check of the tick has acted on the 11th fault.
\<close>

theorem C4_counterexample:
  "spin_slot (stub_bus (\<lambda>a. True) 0 (0, 0) (0, 0x05, 0xDC))
     (sensor 0x64 ACQUISITION_PENDING 10 1450) shared0 =
     Some (\<lparr>address = 0x64, lidar_state = SHUTING_DOWN, nacksCount = 0, distance = 1500,
             last_distance = 1450, strength = 0, powered = False, timeReset = 0, notified = 0\<rparr>,
           shared0\<lparr>trace := [OpReadByte 0x64 0x01, OpReadWord 0x64 0x8f]\<rparr>)"
proof -
  let ?io = "stub_bus (\<lambda>a. True) 0 (0, 0) (0, 0x05, 0xDC)"
  let ?l = "sensor 0x64 ACQUISITION_PENDING 10 1450"
  have h1: "lidar_state ?l = ACQUISITION_PENDING"
    by (simp add: sensor_def)
  have h2: "readByte ?io (address ?l) 0x01 171 (bus shared0) = ((0, 0), ())"
    by (simp add: stub_bus_def)
  have h3: "bitRead 0 0 = 0"
    by (simp add: bitRead_def)
  have h4: "readWord ?io (address ?l) 0x8f () = ((0, 0x05, 0xDC), ())"
    by (simp add: stub_bus_def)
  have h5: "(1500 :: int) = (if (0x05 :: u8) < 0x80 then 256 * uint (0x05 :: u8) + uint (0xDC :: u8)
                             else 256 * uint (0x05 :: u8) + uint (0xDC :: u8) - 65536)"
    by simp
  have h6: "INT_MIN < 1500 - distance ?l" and h7: "1500 - distance ?l \<le> INT_MAX"
    by (simp_all add: sensor_def)
  from spin_slot_eq [OF spin_case_pending_done [OF h1 h2 h3 h4 h5 h6 h7]]
  show ?thesis
    by (simp add: nack_check_eq sensor_def shared0_def)
qed

text \<open>
  Claim C8. When the status read fails (\<open>nack \<noteq> 0\<close>) and leaves the caller's buffer as
  it was, \<^verbatim>\<open>status\<close> returns the initial value 171 of the buffer; bit 0 of 171 is set;
  so a sensor in \<open>ACQUISITION_PENDING\<close> is still in \<open>ACQUISITION_PENDING\<close> after its
  state case (with the failure counted), and is not in \<open>ACQUISITION_DONE\<close> after the
  loop body. Both the state case and the loop body have a result.
\<close>

theorem C8_failed_status_read_returns_171:
  assumes "readByte io (address l) 0x01 171 (bus e) = ((nack, 171), b1)"
    and "nack \<noteq> 0"
  shows "fst (status io l e) = 171 \<and> bitRead 171 0 = 1 \<and>
         (lidar_state l = ACQUISITION_PENDING \<longrightarrow>
            (\<exists>l1 e1 l2. spin_case io l e = Some (l1, e1) \<and>
               lidar_state l1 = ACQUISITION_PENDING \<and>
               nacksCount l1 = nacksCount l + 1 \<and>
               spin_slot io l e = Some (l2, e1) \<and>
               lidar_state l2 \<noteq> ACQUISITION_DONE))"
proof -
  have b: "bitRead 171 0 = 1"
    by (simp add: bitRead_def)
  have s: "fst (status io l e) = 171"
    using assms by (simp add: status_eq)
  have "\<exists>l1 e1 l2. spin_case io l e = Some (l1, e1) \<and>
          lidar_state l1 = ACQUISITION_PENDING \<and>
          nacksCount l1 = nacksCount l + 1 \<and>
          spin_slot io l e = Some (l2, e1) \<and>
          lidar_state l2 \<noteq> ACQUISITION_DONE"
    if p: "lidar_state l = ACQUISITION_PENDING"
  proof -
    have "bitRead 171 0 \<noteq> 0" using b by simp
    note c = spin_case_pending_busy [OF p assms(1) this]
    have "lidar_state (shouldIncrementNack nack l) = ACQUISITION_PENDING"
      using p by simp
    moreover have "nacksCount (shouldIncrementNack nack l) = nacksCount l + 1"
      using assms(2) by (simp add: shouldIncrementNack_def)
    moreover have "lidar_state (nack_check (shouldIncrementNack nack l)
                     (e\<lparr>bus := b1, trace := trace e @ [OpReadByte (address l) 0x01]\<rparr>))
                   \<noteq> ACQUISITION_DONE"
      using p by (simp add: nack_check_state)
    ultimately show ?thesis
      using c spin_slot_eq [OF c] by blast
  qed
  with b s show ?thesis by blast
qed

theorem C8_witness:
  "fst (status (stub_bus (\<lambda>a. True) 0 (1, 0) (0, 0, 0))
          (sensor 0x64 ACQUISITION_PENDING 0 0) shared0) = 171 \<and>
   spin_case (stub_bus (\<lambda>a. True) 0 (1, 0) (0, 0, 0))
          (sensor 0x64 ACQUISITION_PENDING 0 0) shared0 =
     Some (sensor 0x64 ACQUISITION_PENDING 1 0, shared0\<lparr>trace := [OpReadByte 0x64 0x01]\<rparr>)"
proof -
  let ?io = "stub_bus (\<lambda>a. True) 0 (1, 0) (0, 0, 0)"
  let ?l = "sensor 0x64 ACQUISITION_PENDING 0 0"
  have h1: "readByte ?io (address ?l) 0x01 171 (bus shared0) = ((1, 171), ())"
    by (simp add: stub_bus_def)
  have h2: "(1 :: u8) \<noteq> 0"
    by simp
  have "bitRead 171 0 \<noteq> 0"
    by (simp add: bitRead_def)
  with h1 have c: "spin_case ?io ?l shared0 =
     Some (sensor 0x64 ACQUISITION_PENDING 1 0, shared0\<lparr>trace := [OpReadByte 0x64 0x01]\<rparr>)"
    by (simp add: spin_case_def getState_def status_eq shouldIncrementNack_def sensor_def
        shared0_def)
  from C8_failed_status_read_returns_171 [OF h1 h2] c
  show ?thesis by simp
qed



section \<open>The loop of spinOnce\<close>

lemma at_slot_Some:
  assumes "slot s i = Some l" and "f l (shared s) = Some (l1, e1)"
  shows "at_slot i f s = Some (s\<lparr>lidars := (lidars s)[i := Some l1], shared := e1\<rparr>)"
  using assms by (simp add: at_slot_def)

lemma at_slot_SomeD:
  assumes "at_slot i f s = Some s'"
  shows "\<exists>l l1 e1. slot s i = Some l \<and> f l (shared s) = Some (l1, e1) \<and>
                    s' = s\<lparr>lidars := (lidars s)[i := Some l1], shared := e1\<rparr>"
  using assms by (auto simp: at_slot_def split: option.splits)

lemma slot_update:
  "slot (s\<lparr>lidars := (lidars s)[i := v], shared := e\<rparr>) j =
     (if j = i \<and> i < length (lidars s) then v else slot s j)"
  by (simp add: slot_def)

lemma slot_Some_length: "slot s i = Some l \<Longrightarrow> i < length (lidars s)"
  by (simp add: slot_def split: if_splits)

lemma spin_slots_append:
  "spin_slots io (xs @ ys) s =
     (case spin_slots io xs s of None \<Rightarrow> None | Some s1 \<Rightarrow> spin_slots io ys s1)"
  by (induction xs arbitrary: s) (simp_all split: option.splits)

lemma spin_slots_frame:
  assumes "spin_slots io js s = Some s'"
  shows "count s' = count s \<and> (\<forall>j. j \<notin> set js \<longrightarrow> slot s' j = slot s j)"
  using assms
proof (induction js arbitrary: s)
  case Nil
  then show ?case by simp
next
  case (Cons i js)
  from Cons.prems obtain s1 where s1: "at_slot i (spin_slot io) s = Some s1"
    and rest: "spin_slots io js s1 = Some s'"
    by (auto split: option.splits)
  from at_slot_SomeD [OF s1] obtain l1 e1 where
    "s1 = s\<lparr>lidars := (lidars s)[i := Some l1], shared := e1\<rparr>" by blast
  then have "count s1 = count s" and "\<And>j. j \<noteq> i \<Longrightarrow> slot s1 j = slot s j"
    by (simp_all add: slot_update)
  with Cons.IH [OF rest] show ?case by simp
qed

lemma spinOnce_slot:
  assumes "spinOnce io s = Some s'" and "i < unat (count s)"
  shows "\<exists>sm l l1 e1. spin_slots io [0..<i] s = Some sm \<and> slot s i = Some l \<and>
           spin_case io l (shared sm) = Some (l1, e1) \<and>
           slot s' i = Some (nack_check l1 e1)"
proof -
  let ?n = "unat (count s)"
  have "[0..<?n] = [0..<i] @ i # [Suc i..<?n]"
    using assms(2) by (metis le_add1 less_imp_add_positive upt_add_eq_append upt_conv_Cons
        add.left_neutral)
  with assms(1) have "(case spin_slots io [0..<i] s of None \<Rightarrow> None
                       | Some s1 \<Rightarrow> spin_slots io (i # [Suc i..<?n]) s1) = Some s'"
    by (simp add: spinOnce_def spin_slots_append)
  then obtain sm where sm: "spin_slots io [0..<i] s = Some sm"
    and tl: "spin_slots io (i # [Suc i..<?n]) sm = Some s'"
    by (auto split: option.splits)
  from tl obtain s2 where s2: "at_slot i (spin_slot io) sm = Some s2"
    and rest: "spin_slots io [Suc i..<?n] s2 = Some s'"
    by (auto split: option.splits)
  from at_slot_SomeD [OF s2] obtain l l' e1 where
    l: "slot sm i = Some l" and body: "spin_slot io l (shared sm) = Some (l', e1)"
    and s2eq: "s2 = sm\<lparr>lidars := (lidars sm)[i := Some l'], shared := e1\<rparr>"
    by blast
  from body obtain l1 where c: "spin_case io l (shared sm) = Some (l1, e1)"
    and l': "l' = nack_check l1 e1"
    by (auto simp: spin_slot_def split: option.splits)
  have "slot s2 i = Some l'"
    using s2eq slot_Some_length [OF l] by (simp add: slot_update)
  moreover have "slot s' i = slot s2 i"
    using spin_slots_frame [OF rest] by simp
  moreover have "slot sm i = slot s i"
    using spin_slots_frame [OF sm] by simp
  ultimately have "slot s i = Some l" and "slot s' i = Some (nack_check l1 e1)"
    using l l' by simp_all
  with sm c show ?thesis
    by (intro exI [of _ sm] exI [of _ l] exI [of _ l1] exI [of _ e1]) simp
qed

lemma wire_clock [simp]:
  "clock (snd (I2C_isOnline io a e)) = clock e"
  "clock (snd (I2C_write io a r v e)) = clock e"
  "clock (snd (I2C_readByte io a r buf e)) = clock e"
  "clock (snd (I2C_readWord io a r e)) = clock e"
  by (simp_all add: bus_defs split: prod.splits)

lemma postReset_effect:
  assumes "postReset io l e = (l', e')"
  shows "l' = l\<lparr>nacksCount := nacksCount l'\<rparr> \<and> nacksCount l \<le> nacksCount l' \<and>
         nacksCount l' \<le> nacksCount l + 2 \<and>
         resetOngoing e' = False \<and> clock e' = clock e"
proof -
  obtain code l1 e1 where c: "changeAddress io l e = (code, l1, e1)"
    by (cases "changeAddress io l e")
  from changeAddress_effect [OF c] c assms show ?thesis
    by (auto simp: postReset_def)
qed

lemma spin_case_clock:
  assumes "spin_case io l e = Some (l1, e1)"
  shows "clock e1 = clock e"
proof (cases "lidar_state l")
  case SHUTING_DOWN
  with assms postReset_effect [of io l e] show ?thesis
    by (auto simp: spin_case_def getState_def split: if_splits prod.splits)
next
  case NEED_RESET
  with assms show ?thesis
    by (auto simp: spin_case_def getState_def preReset_def split: if_splits)
next
  case RESET_PENDING
  with assms postReset_effect [of io l e] show ?thesis
    by (auto simp: spin_case_def getState_def split: if_splits prod.splits)
next
  case NEED_CONFIGURE
  with assms show ?thesis
    by (auto simp: spin_case_def getState_def configure_def bus_defs split: prod.splits)
next
  case ACQUISITION_READY
  with assms show ?thesis
    by (simp add: spin_case_def getState_def async_def split: prod.splits)
next
  case ACQUISITION_PENDING
  with assms show ?thesis
    by (auto simp: spin_case_def getState_def status_def distance_read_def bus_defs Let_def
        split: if_splits prod.splits option.splits)
next
  case ACQUISITION_DONE
  with assms show ?thesis
    by (auto simp: spin_case_def getState_def signalStrength_def setOffset_def bus_defs Let_def
        split: prod.splits)
qed

lemma spin_slots_clock:
  assumes "spin_slots io js s = Some s'"
  shows "clock (shared s') = clock (shared s)"
  using assms
proof (induction js arbitrary: s)
  case Nil
  then show ?case by simp
next
  case (Cons i js)
  from Cons.prems obtain s1 where s1: "at_slot i (spin_slot io) s = Some s1"
    and rest: "spin_slots io js s1 = Some s'"
    by (auto split: option.splits)
  from at_slot_SomeD [OF s1] obtain l l' e1 where
    body: "spin_slot io l (shared s) = Some (l', e1)"
    and s1eq: "s1 = s\<lparr>lidars := (lidars s)[i := Some l'], shared := e1\<rparr>"
    by blast
  from body obtain l1 where "spin_case io l (shared s) = Some (l1, e1)"
    by (auto simp: spin_slot_def split: option.splits)
  from spin_case_clock [OF this] s1eq have "clock (shared s1) = clock (shared s)"
    by simp
  with Cons.IH [OF rest] show ?case by simp
qed

lemma spec_edge_next: "spec_edge a (spec_next a)"
  by (cases a) (simp_all add: spec_edge_def spec_next_def)

lemma spin_case_next:
  assumes "spin_case io l e = Some (l1, e1)"
  shows "lidar_state l1 = (if spec_waits io l e then lidar_state l else spec_next (lidar_state l))"
proof (cases "lidar_state l")
  case SHUTING_DOWN
  with assms show ?thesis
    by (auto simp: spin_case_def getState_def setState_def spec_waits_def spec_next_def
        split: if_splits prod.splits)
next
  case NEED_RESET
  with assms show ?thesis
    by (auto simp: spin_case_def getState_def setState_def spec_waits_def spec_next_def
        split: if_splits prod.splits)
next
  case RESET_PENDING
  with assms show ?thesis
    by (auto simp: spin_case_def getState_def setState_def spec_waits_def spec_next_def
        split: if_splits prod.splits)
next
  case NEED_CONFIGURE
  with assms show ?thesis
    by (auto simp: spin_case_def getState_def setState_def spec_waits_def spec_next_def
        split: prod.splits)
next
  case ACQUISITION_READY
  with assms show ?thesis
    by (simp add: spin_case_def getState_def async_def split: prod.splits)
next
  case ACQUISITION_PENDING
  obtain n st b1 where rb: "readByte io (address l) 0x01 171 (bus e) = ((n, st), b1)"
    by (cases "readByte io (address l) 0x01 171 (bus e)") auto
  show ?thesis
  proof (cases "bitRead st 0 = 0")
    case True
    with assms ACQUISITION_PENDING rb show ?thesis
      by (auto simp: spin_case_def getState_def setState_def spec_waits_def spec_next_def
          status_eq Let_def split: prod.splits option.splits)
  next
    case False
    with assms ACQUISITION_PENDING rb spin_case_pending_busy [OF ACQUISITION_PENDING rb False]
    show ?thesis
      by (auto simp: spec_waits_def)
  qed
next
  case ACQUISITION_DONE
  with assms show ?thesis
    by (auto simp: spin_case_def getState_def setState_def spec_waits_def spec_next_def Let_def
        split: prod.splits)
qed

lemma spin_case_defined:
  assumes "lidar_state l \<noteq> ACQUISITION_READY" and "lidar_state l \<noteq> ACQUISITION_PENDING"
  shows "spin_case io l e \<noteq> None"
  using assms
  by (cases "lidar_state l")
     (simp_all add: spin_case_def getState_def Let_def split: prod.splits)

lemma spin_slots_defined:
  assumes "distinct js"
    and "\<forall>j\<in>set js. \<exists>l. slot s j = Some l \<and> lidar_state l \<noteq> ACQUISITION_READY \<and>
                               lidar_state l \<noteq> ACQUISITION_PENDING"
  shows "spin_slots io js s \<noteq> None"
  using assms
proof (induction js arbitrary: s)
  case Nil
  then show ?case by simp
next
  case (Cons i js)
  from Cons.prems(2) obtain l where l: "slot s i = Some l"
    and st: "lidar_state l \<noteq> ACQUISITION_READY" "lidar_state l \<noteq> ACQUISITION_PENDING"
    by auto
  from spin_case_defined [OF st, of io "shared s"]
  obtain l1 e1 where c: "spin_case io l (shared s) = Some (l1, e1)"
    by (cases "spin_case io l (shared s)") auto
  let ?s1 = "s\<lparr>lidars := (lidars s)[i := Some (nack_check l1 e1)], shared := e1\<rparr>"
  have step: "at_slot i (spin_slot io) s = Some ?s1"
    by (rule at_slot_Some [where f = "spin_slot io", OF l spin_slot_eq [OF c]])
  have "slot ?s1 j = slot s j" if "j \<in> set js" for j
    using that Cons.prems(1) by (auto simp: slot_update)
  with Cons.prems have v: "\<forall>j\<in>set js. \<exists>l. slot ?s1 j = Some l \<and>
      lidar_state l \<noteq> ACQUISITION_READY \<and> lidar_state l \<noteq> ACQUISITION_PENDING"
    by simp
  from Cons.prems(1) have d: "distinct js" by simp
  from Cons.IH [OF d v] step show ?case by simp
qed

text \<open>
  A tick has a result when every slot below \<open>count\<close> holds a sensor and none of these
  sensors is in \<open>ACQUISITION_READY\<close> (where \<^verbatim>\<open>async\<close> is called) or in
  \<open>ACQUISITION_PENDING\<close> (where the distance arithmetic may overflow).
\<close>

lemma spinOnce_returns:
  assumes "\<forall>j<unat (count s). \<exists>l. slot s j = Some l \<and> lidar_state l \<noteq> ACQUISITION_READY \<and>
                                      lidar_state l \<noteq> ACQUISITION_PENDING"
  shows "\<exists>s'. spinOnce io s = Some s'"
proof -
  have "spin_slots io [0..<unat (count s)] s \<noteq> None"
    by (rule spin_slots_defined) (use assms in simp_all)
  then show ?thesis by (simp add: spinOnce_def)
qed



text \<open>
  Claim C7, as amended. In every tick that has a result, for every registered sensor
  \<open>l\<close> (slot \<open>i < count\<close>; \<open>sm\<close> is the controller after the slots before \<open>i\<close>, at the
  clock reading of the tick): the state case advances the sensor by exactly one edge of
  the transition table, to \<open>spec_next\<close> of its state, unless the sensor waits on the
  condition of its state (\<open>spec_waits\<close>), and then by none (\<open>l1\<close> is the sensor after
  its state case); the fault check of the same tick then leaves the state of \<open>l1\<close>,
  or, exactly when the fault counter of \<open>l1\<close> exceeds \<^verbatim>\<open>MAX_NACKS\<close>, forces the sensor
  to \<open>SHUTING_DOWN\<close>. So a tick can change a sensor's state twice: one table edge, and
  the forced reset after it.
\<close>

theorem C7_one_table_edge_then_fault_check:
  assumes "spinOnce io s = Some s'" and "i < unat (count s)"
  shows "\<exists>sm l l1 e1 l'. spin_slots io [0..<i] s = Some sm \<and>
           clock (shared sm) = clock (shared s) \<and> slot s i = Some l \<and>
           spin_case io l (shared sm) = Some (l1, e1) \<and> slot s' i = Some l' \<and>
           lidar_state l1 = (if spec_waits io l (shared sm) then lidar_state l
                             else spec_next (lidar_state l)) \<and>
           spec_edge (lidar_state l) (spec_next (lidar_state l)) \<and>
           lidar_state l' = (if MAX_NACKS < nacksCount l1 then SHUTING_DOWN
                             else lidar_state l1)"
proof -
  from spinOnce_slot [OF assms] obtain sm l l1 e1 where
    f: "spin_slots io [0..<i] s = Some sm" "slot s i = Some l"
       "spin_case io l (shared sm) = Some (l1, e1)" "slot s' i = Some (nack_check l1 e1)"
    by blast
  note spin_slots_clock [OF f(1)] spin_case_next [OF f(3)] spec_edge_next [of "lidar_state l"]
    nack_check_state [of l1 e1]
  with f show ?thesis
    by (intro exI [of _ sm] exI [of _ l] exI [of _ l1] exI [of _ e1]
        exI [of _ "nack_check l1 e1"]) simp
qed

text \<open>
  The witness: a sensor in \<open>NEED_RESET\<close> while the latch is free is powered on and moves
  to \<open>RESET_PENDING\<close>, one edge of the table.
\<close>

theorem C7_witness:
  "spinOnce (stub_bus (\<lambda>a. False) 1 (1, 0) (1, 0, 0)) (one_sensor (sensor 0x64 NEED_RESET 0 0)) =
     Some ((one_sensor ((sensor 0x64 RESET_PENDING 0 0)\<lparr>powered := True\<rparr>))
             \<lparr>shared := shared0\<lparr>resetOngoing := True\<rparr>\<rparr>) \<and>
   0 < unat (count (one_sensor (sensor 0x64 NEED_RESET 0 0))) \<and>
   \<not> spec_waits (stub_bus (\<lambda>a. False) 1 (1, 0) (1, 0, 0)) (sensor 0x64 NEED_RESET 0 0) shared0 \<and>
   spec_next NEED_RESET = RESET_PENDING"
proof -
  let ?io = "stub_bus (\<lambda>a. False) 1 (1, 0) (1, 0, 0)"
  let ?s = "one_sensor (sensor 0x64 NEED_RESET 0 0)"
  have h2: "0 < unat (count ?s)"
    by (simp add: one_sensor_def)
  have c: "spin_case ?io (sensor 0x64 NEED_RESET 0 0) shared0 =
     Some ((sensor 0x64 RESET_PENDING 0 0)\<lparr>powered := True\<rparr>, shared0\<lparr>resetOngoing := True\<rparr>)"
    by (simp add: spin_case_def getState_def setState_def preReset_def lidar_on_def
        timerUpdate_def sensor_def shared0_def)
  have r: "spinOnce ?io ?s =
     Some ((one_sensor ((sensor 0x64 RESET_PENDING 0 0)\<lparr>powered := True\<rparr>))
             \<lparr>shared := shared0\<lparr>resetOngoing := True\<rparr>\<rparr>)"
    by (simp add: spinOnce_def one_sensor_def at_slot_def slot_def spin_slot_def c nack_check_eq)
       (simp add: sensor_def)
  have w: "\<not> spec_waits ?io (sensor 0x64 NEED_RESET 0 0) shared0"
    by (simp add: spec_waits_def sensor_def shared0_def)
  have n: "spec_next NEED_RESET = RESET_PENDING"
    by (simp add: spec_next_def)
  from C7_one_table_edge_then_fault_check [OF r h2] r h2 w n
  show ?thesis by blast
qed

text \<open>
  The claim as stated fails: a sensor in \<open>NEED_CONFIGURE\<close> with 10 counted faults, on a
  bus where every write fails. In one tick its state case takes the table edge to
  \<open>ACQUISITION_READY\<close> (the failed write of the configuration is the 11th fault), and
  the fault check then forces it to \<open>SHUTING_DOWN\<close>: the state after the tick is
  neither the state before it nor one table edge away from it.
\<close>

theorem C7_counterexample:
  "spinOnce (stub_bus (\<lambda>a. False) 1 (1, 0) (1, 0, 0)) (one_sensor (sensor 0x64 NEED_CONFIGURE 10 0)) =
     Some ((one_sensor (sensor 0x64 SHUTING_DOWN 0 0))
             \<lparr>shared := shared0\<lparr>trace := [OpWrite 0x64 0x1c 0x20]\<rparr>\<rparr>) \<and>
   spin_case (stub_bus (\<lambda>a. False) 1 (1, 0) (1, 0, 0)) (sensor 0x64 NEED_CONFIGURE 10 0) shared0 =
     Some (sensor 0x64 ACQUISITION_READY 11 0, shared0\<lparr>trace := [OpWrite 0x64 0x1c 0x20]\<rparr>) \<and>
   \<not> (lidar_state (sensor 0x64 SHUTING_DOWN 0 0) = lidar_state (sensor 0x64 NEED_CONFIGURE 10 0) \<or>
      spec_edge (lidar_state (sensor 0x64 NEED_CONFIGURE 10 0))
                (lidar_state (sensor 0x64 SHUTING_DOWN 0 0)))"
proof -
  let ?io = "stub_bus (\<lambda>a. False) 1 (1, 0) (1, 0, 0)"
  have c: "spin_case ?io (sensor 0x64 NEED_CONFIGURE 10 0) shared0 =
     Some (sensor 0x64 ACQUISITION_READY 11 0, shared0\<lparr>trace := [OpWrite 0x64 0x1c 0x20]\<rparr>)"
    by (simp add: spin_case_def getState_def setState_def configure_def bus_defs stub_bus_def
        shouldIncrementNack_def sensor_def shared0_def)
  have r: "spinOnce ?io (one_sensor (sensor 0x64 NEED_CONFIGURE 10 0)) =
     Some ((one_sensor (sensor 0x64 SHUTING_DOWN 0 0))
             \<lparr>shared := shared0\<lparr>trace := [OpWrite 0x64 0x1c 0x20]\<rparr>\<rparr>)"
    by (simp add: spinOnce_def one_sensor_def at_slot_def slot_def spin_slot_def c nack_check_eq)
       (simp add: sensor_def shared0_def)
  have "\<not> (lidar_state (sensor 0x64 SHUTING_DOWN 0 0) = lidar_state (sensor 0x64 NEED_CONFIGURE 10 0) \<or>
        spec_edge (lidar_state (sensor 0x64 NEED_CONFIGURE 10 0))
                  (lidar_state (sensor 0x64 SHUTING_DOWN 0 0)))"
    by (simp add: sensor_def spec_edge_def)
  with c r show ?thesis by blast
qed

section \<open>Registration\<close>

lemma count_add:
  "count (snd (add l i s)) = (if unat i < MAX_LIDARS then count s + 1 else count s)"
  by (simp add: add_def)

lemma count_add_all:
  "count (add_all rs s) = count s + of_nat (length (filter (\<lambda>r. unat (snd r) < MAX_LIDARS) rs))"
proof (induction rs arbitrary: s)
  case Nil
  then show ?case by simp
next
  case (Cons r rs)
  obtain l i where r: "r = (l, i)" by (cases r)
  show ?case
    by (simp add: r Cons.IH count_add)
qed

lemma card_low_slots: "card {i :: u8. unat i < MAX_LIDARS} \<le> MAX_LIDARS"
proof -
  have "card {i :: u8. unat i < MAX_LIDARS} \<le> card {..<MAX_LIDARS}"
  proof (rule card_inj_on_le [where f = unat])
    show "inj_on unat {i :: u8. unat i < MAX_LIDARS}"
      by (rule inj_onI) (simp add: word_unat_eq_iff)
    show "unat ` {i :: u8. unat i < MAX_LIDARS} \<subseteq> {..<MAX_LIDARS}"
      by auto
    show "finite {..<MAX_LIDARS}" by simp
  qed
  then show ?thesis by simp
qed

lemma distinct_low_slots:
  fixes rs :: "(LidarObject \<times> u8) list"
  assumes "distinct (map snd rs)"
  shows "length (filter (\<lambda>r. unat (snd r) < MAX_LIDARS) rs) \<le> MAX_LIDARS"
proof -
  let ?js = "filter (\<lambda>i. unat i < MAX_LIDARS) (map snd rs)"
  have "length (filter (\<lambda>r. unat (snd r) < MAX_LIDARS) rs) = length ?js"
    by (simp add: filter_map comp_def)
  also have "\<dots> = card (set ?js)"
    by (rule distinct_card [symmetric]) (simp add: assms)
  also have "\<dots> \<le> card {i :: u8. unat i < MAX_LIDARS}"
    by (rule card_mono) auto
  also note card_low_slots
  finally show ?thesis .
qed

text \<open>
  Claim C2, as amended. A registration call with slot index \<open>\<ge> 8\<close> returns false and
  changes nothing. A call with slot index \<open>< 8\<close> returns true: the only check is on
  the slot index, not on the number of earlier registrations. After a sequence of
  registration calls from the initial controller whose slot indices are pairwise
  distinct, \<^verbatim>\<open>getCount()\<close> is the number of calls with slot index \<open>< 8\<close>, and at
  most 8.
\<close>

theorem C2_registration_checks_the_slot_index:
  "(MAX_LIDARS \<le> unat i \<longrightarrow> add l i s = (False, s)) \<and>
   (unat i < MAX_LIDARS \<longrightarrow> fst (add l i s)) \<and>
   (distinct (map snd rs) \<longrightarrow>
      unat (getCount (add_all rs (init_controller b))) =
        length (filter (\<lambda>r. unat (snd r) < MAX_LIDARS) rs) \<and>
      unat (getCount (add_all rs (init_controller b))) \<le> MAX_LIDARS)"
proof -
  have "unat (getCount (add_all rs (init_controller b))) =
          length (filter (\<lambda>r. unat (snd r) < MAX_LIDARS) rs) \<and>
        unat (getCount (add_all rs (init_controller b))) \<le> MAX_LIDARS"
    if d: "distinct (map snd rs)"
  proof -
    let ?n = "length (filter (\<lambda>r. unat (snd r) < MAX_LIDARS) rs)"
    have n: "?n \<le> MAX_LIDARS" by (rule distinct_low_slots [OF d])
    have "getCount (add_all rs (init_controller b)) = of_nat ?n"
      by (simp add: getCount_def count_add_all init_controller_def)
    then have "unat (getCount (add_all rs (init_controller b))) = ?n mod 256"
      by (simp add: unat_of_nat)
    with n show ?thesis by simp
  qed
  moreover have "MAX_LIDARS \<le> unat i \<longrightarrow> add l i s = (False, s)"
    by (simp add: add_def)
  moreover have "unat i < MAX_LIDARS \<longrightarrow> fst (add l i s)"
    by (simp add: add_def)
  ultimately show ?thesis by blast
qed

text \<open>The witness: registrations at the slots 0, 1 and 9; the third one fails.\<close>

theorem C2_witness:
  "MAX_LIDARS \<le> unat (9 :: u8) \<and>
   add (sensor 0x68 NEED_RESET 0 0) 9 (init_controller ()) = (False, init_controller ()) \<and>
   unat (0 :: u8) < MAX_LIDARS \<and>
   fst (add (sensor 0x64 NEED_RESET 0 0) 0 (init_controller ())) \<and>
   distinct (map snd [(sensor 0x64 NEED_RESET 0 0, 0 :: u8), (sensor 0x66 NEED_RESET 0 0, 1),
                      (sensor 0x68 NEED_RESET 0 0, 9)]) \<and>
   unat (getCount (add_all [(sensor 0x64 NEED_RESET 0 0, 0), (sensor 0x66 NEED_RESET 0 0, 1),
                            (sensor 0x68 NEED_RESET 0 0, 9)] (init_controller ()))) = 2"
proof -
  let ?rs = "[(sensor 0x64 NEED_RESET 0 0, 0 :: u8), (sensor 0x66 NEED_RESET 0 0, 1),
              (sensor 0x68 NEED_RESET 0 0, 9)]"
  have h9: "MAX_LIDARS \<le> unat (9 :: u8)" by simp
  have h0: "unat (0 :: u8) < MAX_LIDARS" by simp
  have d: "distinct (map snd ?rs)" by simp
  from C2_registration_checks_the_slot_index
         [of 9 "sensor 0x68 NEED_RESET 0 0" "init_controller ()" ?rs "()"] h9 d
  have a: "add (sensor 0x68 NEED_RESET 0 0) 9 (init_controller ()) = (False, init_controller ())"
    and c: "unat (getCount (add_all ?rs (init_controller ()))) =
              length (filter (\<lambda>r. unat (snd r) < MAX_LIDARS) ?rs)"
    by blast+
  from C2_registration_checks_the_slot_index
         [of 0 "sensor 0x64 NEED_RESET 0 0" "init_controller ()" ?rs "()"] h0
  have b: "fst (add (sensor 0x64 NEED_RESET 0 0) 0 (init_controller ()))"
    by blast
  from c have "unat (getCount (add_all ?rs (init_controller ()))) = 2" by simp
  with h9 h0 d a b show ?thesis by blast
qed

text \<open>
  The claim as stated fails: nine registration calls that all name slot 0. The ninth
  call returns true as the first eight did, and \<^verbatim>\<open>getCount()\<close> is then 9.
\<close>

theorem C2_counterexample:
  "fst (add (sensor 0x64 NEED_RESET 0 0) 0
          (add_all (replicate 8 (sensor 0x64 NEED_RESET 0 0, 0)) (init_controller ()))) \<and>
   getCount (add_all (replicate 9 (sensor 0x64 NEED_RESET 0 0, 0)) (init_controller ())) = 9 \<and>
   \<not> unat (9 :: u8) \<le> MAX_LIDARS"
  by (simp add: add_def getCount_def count_add_all init_controller_def)

section \<open>The reset sequence\<close>

lemma spin_slot_reassign:
  assumes "lidar_state l = SHUTING_DOWN \<or> lidar_state l = RESET_PENDING"
    and "checkTimer (clock e) l"
    and "changeAddress io l e = (code, l', e')"
  shows "spin_slot io l e =
           Some (nack_check (l'\<lparr>lidar_state := spec_next (lidar_state l)\<rparr>)
                   (e'\<lparr>resetOngoing := False\<rparr>),
                 e'\<lparr>resetOngoing := False\<rparr>)"
  using assms
  by (auto simp: spin_slot_def spin_case_def getState_def setState_def postReset_def
      spec_next_def)

lemma spin_slot_elapsed_shutdown:
  assumes "lidar_state l = SHUTING_DOWN" and "checkTimer (clock e) l"
    and "nacksCount l + 2 \<le> MAX_NACKS"
  shows "\<exists>l' e'. spin_slot io l e = Some (l', e') \<and>
           lidar_state l' = NEED_RESET \<and> powered l' = powered l \<and>
           timeReset l' = timeReset l \<and> nacksCount l' \<le> nacksCount l + 2 \<and>
           resetOngoing e' = False \<and> clock e' = clock e"
proof -
  obtain code l1 e1 where c: "changeAddress io l e = (code, l1, e1)"
    by (cases "changeAddress io l e")
  note f = changeAddress_effect [OF c]
  from f have l1: "l1 = l\<lparr>nacksCount := nacksCount l1\<rparr>" by simp
  have p: "powered l1 = powered l \<and> timeReset l1 = timeReset l"
    by (subst l1, simp)+
  have "spin_slot io l e =
          Some (nack_check (l1\<lparr>lidar_state := spec_next (lidar_state l)\<rparr>)
                  (e1\<lparr>resetOngoing := False\<rparr>),
                e1\<lparr>resetOngoing := False\<rparr>)"
    using assms(1,2) c by (intro spin_slot_reassign) simp_all
  with f p assms(1,3) show ?thesis
    by (simp add: nack_check_eq spec_next_def)
qed

lemma spin_slot_waiting:
  assumes "lidar_state l = SHUTING_DOWN \<or> lidar_state l = RESET_PENDING"
    and "\<not> checkTimer (clock e) l" and "nacksCount l \<le> MAX_NACKS"
  shows "spin_slot io l e = Some (l, e)"
  using assms
  by (auto simp: spin_slot_def spin_case_def getState_def nack_check_eq)

lemma spin_slot_power_up:
  assumes "lidar_state l = NEED_RESET" and "\<not> resetOngoing e" and "nacksCount l \<le> MAX_NACKS"
  shows "spin_slot io l e =
           Some (l\<lparr>powered := True, timeReset := clock e, lidar_state := RESET_PENDING\<rparr>,
                 e\<lparr>resetOngoing := True\<rparr>)"
  using assms
  by (simp add: spin_slot_def spin_case_def getState_def setState_def preReset_def
      lidar_on_def timerUpdate_def nack_check_eq)

lemma spinOnce_two:
  assumes "lidars s = Some a # Some b # rest" and "count s = 2"
    and "spin_slot io a (shared s) = Some (a', e1)"
    and "spin_slot io b e1 = Some (b', e2)"
  shows "spinOnce io s = Some (s\<lparr>lidars := Some a' # Some b' # rest, shared := e2\<rparr>)"
proof -
  have u: "[0..<(2 :: nat)] = [0, 1]"
    by (simp add: upt_rec)
  show ?thesis
    using assms by (simp add: spinOnce_def u at_slot_def slot_def)
qed

lemma run_tick_two:
  assumes "spin_slot io a (e\<lparr>clock := t\<rparr>) = Some (a', e1)"
    and "spin_slot io b e1 = Some (b', e2)"
  shows "run io (SpinOnce t # cs) \<lparr>lidars = Some a # Some b # rest, count = 2, shared = e\<rparr> =
         run io cs \<lparr>lidars = Some a' # Some b' # rest, count = 2, shared = e2\<rparr>"
proof -
  let ?s = "at_time t \<lparr>lidars = Some a # Some b # rest, count = 2, shared = e\<rparr>"
  have "spinOnce io ?s = Some (?s\<lparr>lidars := Some a' # Some b' # rest, shared := e2\<rparr>)"
    using spinOnce_two [of ?s a b rest io a' e1 b' e2] assms
    by (simp add: at_time_def)
  then show ?thesis by (simp add: at_time_def)
qed

lemma run_tick_one:
  assumes "spin_slot io a (e\<lparr>clock := t\<rparr>) = Some (a', e1)"
  shows "run io (SpinOnce t # cs) \<lparr>lidars = Some a # rest, count = 1, shared = e\<rparr> =
         run io cs \<lparr>lidars = Some a' # rest, count = 1, shared = e1\<rparr>"
  using assms
  by (simp add: at_time_def spinOnce_def at_slot_def slot_def)

lemma run_registrations:
  "run io (Add 0 (sensor 0x64 NEED_RESET 0 0) 0 # Add 10 (sensor 0x66 NEED_RESET 0 0) 1 # cs)
     (init_controller b) =
   run io cs
     \<lparr>lidars = Some (sensor 0x64 SHUTING_DOWN 0 0) #
               Some ((sensor 0x66 SHUTING_DOWN 0 0)\<lparr>timeReset := 10\<rparr>) # replicate 6 None,
      count = 2,
      shared = \<lparr>resetOngoing = False, bus = b, trace = [], clock = 10\<rparr>\<rparr>"
  by (simp add: add_def at_time_def init_controller_def resetLidar_def setState_def
      timerUpdate_def lidar_off_def sensor_def eval_nat_numeral)

text \<open>
  Claim C1: in every reachable state at most one registered sensor is in a reset phase
  (\<open>RESET_PENDING\<close> or \<open>SHUTING_DOWN\<close>) with its power enabled. The code breaks it,
  on every bus \<open>io\<close> and from every bus state \<open>b\<close>: two sensors are registered at
  the times 0 and 10, and the loop ticks at 21, 25, 31 and 32. At 21 the timer of slot
  0 has elapsed and the sensor moves to \<open>NEED_RESET\<close>; at 25 it takes the latch, is
  powered on and moves to \<open>RESET_PENDING\<close>; at 31 the timer of slot 1 has elapsed, and
  the \<^verbatim>\<open>postReset\<close> of its \<open>SHUTING_DOWN\<close> case clears the latch that slot 0
  holds; at 32 slot 1 finds the latch free and is powered on while slot 0, 7 time units
  into its 20, is still powered in \<open>RESET_PENDING\<close>. Both sensors are then in
  \<open>RESET_PENDING\<close> with the power enabled.
\<close>

theorem C1_two_sensors_powered_in_reset:
  "\<exists>s a1 a2.
     run io [Add 0 (sensor 0x64 NEED_RESET 0 0) 0, Add 10 (sensor 0x66 NEED_RESET 0 0) 1,
             SpinOnce 21, SpinOnce 25, SpinOnce 31, SpinOnce 32] (init_controller b) = Some s \<and>
     count s = 2 \<and> slot s 0 = Some a1 \<and> slot s 1 = Some a2 \<and>
     lidar_state a1 = RESET_PENDING \<and> powered a1 \<and>
     lidar_state a2 = RESET_PENDING \<and> powered a2 \<and>
     reset_powered s = 2"
proof -
  let ?A0 = "sensor 0x64 SHUTING_DOWN 0 0"
  let ?B0 = "(sensor 0x66 SHUTING_DOWN 0 0)\<lparr>timeReset := 10\<rparr>"
  let ?rest = "replicate 6 (None :: LidarObject option)"
  let ?e0 = "\<lparr>resetOngoing = False, bus = b, trace = [], clock = 10\<rparr>"
  \<comment> \<open>tick at 21: the timer of slot 0 has elapsed, the one of slot 1 has not\<close>
  have "\<exists>l' e'. spin_slot io ?A0 (?e0\<lparr>clock := 21\<rparr>) = Some (l', e') \<and>
           lidar_state l' = NEED_RESET \<and> powered l' = powered ?A0 \<and>
           timeReset l' = timeReset ?A0 \<and> nacksCount l' \<le> nacksCount ?A0 + 2 \<and>
           resetOngoing e' = False \<and> clock e' = clock (?e0\<lparr>clock := 21\<rparr>)"
    by (rule spin_slot_elapsed_shutdown) (simp_all add: sensor_def checkTimer_def)
  then obtain A1 e1 where r1: "spin_slot io ?A0 (?e0\<lparr>clock := 21\<rparr>) = Some (A1, e1)"
    and f1: "lidar_state A1 = NEED_RESET \<and> powered A1 = powered ?A0 \<and>
            timeReset A1 = timeReset ?A0 \<and> nacksCount A1 \<le> nacksCount ?A0 + 2 \<and>
            resetOngoing e1 = False \<and> clock e1 = clock (?e0\<lparr>clock := 21\<rparr>)"
    by blast
  have w1: "spin_slot io ?B0 e1 = Some (?B0, e1)"
    using f1 by (intro spin_slot_waiting) (simp_all add: sensor_def checkTimer_def)
  \<comment> \<open>tick at 25: slot 0 takes the latch and is powered on\<close>
  let ?A2 = "A1\<lparr>powered := True, timeReset := 25, lidar_state := RESET_PENDING\<rparr>"
  let ?e2 = "e1\<lparr>clock := 25, resetOngoing := True\<rparr>"
  have p2: "spin_slot io A1 (e1\<lparr>clock := 25\<rparr>) = Some (?A2, ?e2)"
    using f1 spin_slot_power_up [of A1 "e1\<lparr>clock := 25\<rparr>" io] by (simp add: sensor_def)
  have w2: "spin_slot io ?B0 ?e2 = Some (?B0, ?e2)"
    by (intro spin_slot_waiting) (simp_all add: sensor_def checkTimer_def)
  \<comment> \<open>tick at 31: slot 0 still waits; the timer of slot 1 has elapsed, and its
      \<^verbatim>\<open>postReset\<close> clears the latch that slot 0 holds\<close>
  have w3: "spin_slot io ?A2 (?e2\<lparr>clock := 31\<rparr>) = Some (?A2, ?e2\<lparr>clock := 31\<rparr>)"
    using f1 by (intro spin_slot_waiting) (simp_all add: sensor_def checkTimer_def)
  have "\<exists>l' e'. spin_slot io ?B0 (?e2\<lparr>clock := 31\<rparr>) = Some (l', e') \<and>
           lidar_state l' = NEED_RESET \<and> powered l' = powered ?B0 \<and>
           timeReset l' = timeReset ?B0 \<and> nacksCount l' \<le> nacksCount ?B0 + 2 \<and>
           resetOngoing e' = False \<and> clock e' = clock (?e2\<lparr>clock := 31\<rparr>)"
    by (rule spin_slot_elapsed_shutdown) (simp_all add: sensor_def checkTimer_def)
  then obtain B1 e3 where r3: "spin_slot io ?B0 (?e2\<lparr>clock := 31\<rparr>) = Some (B1, e3)"
    and f3: "lidar_state B1 = NEED_RESET \<and> powered B1 = powered ?B0 \<and>
            timeReset B1 = timeReset ?B0 \<and> nacksCount B1 \<le> nacksCount ?B0 + 2 \<and>
            resetOngoing e3 = False \<and> clock e3 = clock (?e2\<lparr>clock := 31\<rparr>)"
    by blast
  \<comment> \<open>tick at 32: slot 0 still waits, powered; slot 1 finds the latch free\<close>
  have w4: "spin_slot io ?A2 (e3\<lparr>clock := 32\<rparr>) = Some (?A2, e3\<lparr>clock := 32\<rparr>)"
    using f1 by (intro spin_slot_waiting) (simp_all add: sensor_def checkTimer_def)
  let ?B2 = "B1\<lparr>powered := True, timeReset := 32, lidar_state := RESET_PENDING\<rparr>"
  let ?e4 = "e3\<lparr>clock := 32, resetOngoing := True\<rparr>"
  have p4: "spin_slot io B1 (e3\<lparr>clock := 32\<rparr>) = Some (?B2, ?e4)"
    using f3 spin_slot_power_up [of B1 "e3\<lparr>clock := 32\<rparr>" io] by (simp add: sensor_def)
  let ?s = "\<lparr>lidars = Some ?A2 # Some ?B2 # ?rest, count = 2, shared = ?e4\<rparr>"
  have "run io [Add 0 (sensor 0x64 NEED_RESET 0 0) 0, Add 10 (sensor 0x66 NEED_RESET 0 0) 1,
             SpinOnce 21, SpinOnce 25, SpinOnce 31, SpinOnce 32] (init_controller b) =
        run io [SpinOnce 21, SpinOnce 25, SpinOnce 31, SpinOnce 32]
          \<lparr>lidars = Some ?A0 # Some ?B0 # ?rest, count = 2, shared = ?e0\<rparr>"
    by (rule run_registrations)
  also have "\<dots> = run io [SpinOnce 25, SpinOnce 31, SpinOnce 32]
          \<lparr>lidars = Some A1 # Some ?B0 # ?rest, count = 2, shared = e1\<rparr>"
    by (rule run_tick_two [OF r1 w1])
  also have "\<dots> = run io [SpinOnce 31, SpinOnce 32]
          \<lparr>lidars = Some ?A2 # Some ?B0 # ?rest, count = 2, shared = ?e2\<rparr>"
    by (rule run_tick_two [OF p2 w2])
  also have "\<dots> = run io [SpinOnce 32]
          \<lparr>lidars = Some ?A2 # Some B1 # ?rest, count = 2, shared = e3\<rparr>"
    by (rule run_tick_two [OF w3 r3])
  also have "\<dots> = run io [] ?s"
    by (rule run_tick_two [OF w4 p4])
  finally have "run io [Add 0 (sensor 0x64 NEED_RESET 0 0) 0, Add 10 (sensor 0x66 NEED_RESET 0 0) 1,
             SpinOnce 21, SpinOnce 25, SpinOnce 31, SpinOnce 32] (init_controller b) = Some ?s"
    by simp
  moreover have "reset_powered ?s = 2"
    by (simp add: reset_powered_def in_reset_powered_def)
  moreover have "slot ?s 0 = Some ?A2" "slot ?s 1 = Some ?B2"
    by (simp_all add: slot_def)
  ultimately show ?thesis by (intro exI [of _ ?s] exI [of _ ?A2] exI [of _ ?B2]) simp
qed

text \<open>
  Claim C10, as amended. When \<^verbatim>\<open>changeAddress\<close> returns 6 (factory address
  unresponsive) or 5 (target address occupied), the sensor object is unchanged but for
  its fault counter, which has grown by exactly one; the only bus transactions of the
  call are online probes (one for code 6, two for code 5), so no write was attempted;
  and once the counter had reached \<^verbatim>\<open>MAX_NACKS\<close> before the call, \<^verbatim>\<open>checkNacks\<close> now
  asks for the forced reset. The state machine makes this call in the states
  \<open>SHUTING_DOWN\<close> and \<open>RESET_PENDING\<close>, once the timer has elapsed. The tick of such a
  call forces the reset (the sensor is powered off, its timer armed, its state
  \<open>SHUTING_DOWN\<close>, its counter 0) exactly when the counter had already reached
  \<^verbatim>\<open>MAX_NACKS\<close> before the tick; otherwise the sensor moves on to the next state of the
  table with one fault more, and the latch is cleared in both cases.
\<close>

theorem C10_precondition_failure_counts_one_fault:
  assumes "changeAddress io l e = (code, l', e')"
    and "code = 6 \<or> code = 5"
  shows "l' = l\<lparr>nacksCount := nacksCount l + 1\<rparr> \<and>
         trace e' = trace e @ (if code = 6 then [OpIsOnline 0x62]
                               else [OpIsOnline 0x62, OpIsOnline (address l)]) \<and>
         (MAX_NACKS \<le> nacksCount l \<longrightarrow> fst (checkNacks l')) \<and>
         ((lidar_state l = SHUTING_DOWN \<or> lidar_state l = RESET_PENDING) \<and>
          checkTimer (clock e) l \<longrightarrow>
            spin_slot io l e =
              Some (if MAX_NACKS \<le> nacksCount l
                    then l\<lparr>nacksCount := 0, powered := False, timeReset := clock e,
                           lidar_state := SHUTING_DOWN\<rparr>
                    else l\<lparr>nacksCount := nacksCount l + 1,
                           lidar_state := spec_next (lidar_state l)\<rparr>,
                    e'\<lparr>resetOngoing := False\<rparr>))"
proof -
  have a: "l' = l\<lparr>nacksCount := nacksCount l + 1\<rparr> \<and>
         trace e' = trace e @ (if code = 6 then [OpIsOnline 0x62]
                               else [OpIsOnline 0x62, OpIsOnline (address l)]) \<and>
         (MAX_NACKS \<le> nacksCount l \<longrightarrow> fst (checkNacks l'))"
    using assms
    by (auto simp: changeAddress_def bus_defs shouldIncrementNack_def Let_def checkNacks_def
        split: prod.splits if_splits)
  have "spin_slot io l e =
          Some (if MAX_NACKS \<le> nacksCount l
                then l\<lparr>nacksCount := 0, powered := False, timeReset := clock e,
                       lidar_state := SHUTING_DOWN\<rparr>
                else l\<lparr>nacksCount := nacksCount l + 1,
                       lidar_state := spec_next (lidar_state l)\<rparr>,
                e'\<lparr>resetOngoing := False\<rparr>)"
    if st: "lidar_state l = SHUTING_DOWN \<or> lidar_state l = RESET_PENDING"
      and tm: "checkTimer (clock e) l"
  proof -
    from changeAddress_effect [OF assms(1)] have "clock e' = clock e" by simp
    with spin_slot_reassign [OF st tm assms(1)] a show ?thesis
      by (simp add: nack_check_eq)
  qed
  with a show ?thesis by blast
qed

text \<open>
  The witness: every address answers the probe, so the target address is occupied; the
  sensor is in \<open>RESET_PENDING\<close> with 10 counted faults, and its timer has elapsed.
\<close>

theorem C10_witness:
  "changeAddress (stub_bus (\<lambda>a. True) 0 (0, 0) (0, 0, 0)) (sensor 0x64 RESET_PENDING 10 0)
     (shared0\<lparr>clock := 21\<rparr>) =
     (5, sensor 0x64 RESET_PENDING 11 0,
      shared0\<lparr>clock := 21, trace := [OpIsOnline 0x62, OpIsOnline 0x64]\<rparr>) \<and>
   fst (checkNacks (sensor 0x64 RESET_PENDING 11 0)) \<and>
   spin_slot (stub_bus (\<lambda>a. True) 0 (0, 0) (0, 0, 0)) (sensor 0x64 RESET_PENDING 10 0)
     (shared0\<lparr>clock := 21\<rparr>) =
     Some ((sensor 0x64 SHUTING_DOWN 0 0)\<lparr>timeReset := 21\<rparr>,
           shared0\<lparr>clock := 21, trace := [OpIsOnline 0x62, OpIsOnline 0x64]\<rparr>)"
proof -
  let ?io = "stub_bus (\<lambda>a. True) 0 (0, 0) (0, 0, 0)"
  let ?l = "sensor 0x64 RESET_PENDING 10 0"
  let ?e = "shared0\<lparr>clock := 21\<rparr>"
  have res: "changeAddress ?io ?l ?e =
     (5, sensor 0x64 RESET_PENDING 11 0,
      shared0\<lparr>clock := 21, trace := [OpIsOnline 0x62, OpIsOnline 0x64]\<rparr>)"
    by (simp add: changeAddress_def bus_defs shouldIncrementNack_def Let_def stub_bus_def
        sensor_def shared0_def)
  have n: "MAX_NACKS \<le> nacksCount ?l"
    by (simp add: sensor_def)
  have st: "(lidar_state ?l = SHUTING_DOWN \<or> lidar_state ?l = RESET_PENDING) \<and>
            checkTimer (clock ?e) ?l"
    by (simp add: sensor_def shared0_def checkTimer_def)
  from C10_precondition_failure_counts_one_fault [OF res] n st
  have "fst (checkNacks (sensor 0x64 RESET_PENDING 11 0))"
    and "spin_slot ?io ?l ?e =
           Some (?l\<lparr>nacksCount := 0, powered := False, timeReset := clock ?e,
                    lidar_state := SHUTING_DOWN\<rparr>,
                 shared0\<lparr>clock := 21, trace := [OpIsOnline 0x62, OpIsOnline 0x64],
                          resetOngoing := False\<rparr>)"
    by (simp_all add: sensor_def)
  with res show ?thesis
    by (simp add: sensor_def shared0_def)
qed

text \<open>
  The last clause of the claim as stated, that a persistent precondition failure
  eventually triggers the forced reset, fails: one sensor on a bus where every address
  answers the probe, so that every call of \<^verbatim>\<open>changeAddress\<close> returns 5. The state
  machine calls it twice, at 21 (leaving \<open>SHUTING_DOWN\<close>) and at 43 (leaving
  \<open>RESET_PENDING\<close>); at 44 the sensor is configured and in \<open>ACQUISITION_READY\<close> with 2
  counted faults. It was not reset, and \<^verbatim>\<open>changeAddress\<close> is not called again
  unless it is.
\<close>

theorem C10_counterexample:
  "fst (changeAddress (stub_bus (\<lambda>a. True) 0 (0, 0) (0, 0, 0))
          (sensor 0x64 SHUTING_DOWN 0 0) shared0) = 5 \<and>
   run (stub_bus (\<lambda>a. True) 0 (0, 0) (0, 0, 0))
     [Add 0 (sensor 0x64 NEED_RESET 0 0) 0, SpinOnce 21, SpinOnce 22, SpinOnce 43, SpinOnce 44]
     (init_controller ()) =
     Some \<lparr>lidars =
             Some \<lparr>address = 0x64, lidar_state = ACQUISITION_READY, nacksCount = 2,
                   distance = 0, last_distance = 0, strength = 0, powered = True,
                   timeReset = 22, notified = 0\<rparr> # replicate 7 None,
           count = 1,
           shared = \<lparr>resetOngoing = False, bus = (),
                     trace = [OpIsOnline 0x62, OpIsOnline 0x64, OpIsOnline 0x62, OpIsOnline 0x64,
                              OpWrite 0x64 0x1c 0x20],
                     clock = 44\<rparr>\<rparr>"
proof -
  let ?io = "stub_bus (\<lambda>a. True) 0 (0, 0) (0, 0, 0)"
  let ?rest = "replicate 7 (None :: LidarObject option)"
  have c: "\<And>l e. changeAddress ?io l e =
             (5, l\<lparr>nacksCount := nacksCount l + 1\<rparr>,
              e\<lparr>bus := (), trace := trace e @ [OpIsOnline 0x62, OpIsOnline (address l)]\<rparr>)"
    by (rule changeAddress_conflict) (simp_all add: stub_bus_def)
  have w: "\<And>a r v b. write_reg ?io a r v b = (0, b)"
    by (simp add: stub_bus_def)
  have r8: "replicate MAX_LIDARS (None :: LidarObject option) = None # ?rest"
    by (simp add: eval_nat_numeral)
  let ?e0 = "\<lparr>resetOngoing = False, bus = (), trace = [], clock = 0\<rparr>"
  let ?e1 = "\<lparr>resetOngoing = False, bus = (), trace = [OpIsOnline 0x62, OpIsOnline 0x64],
             clock = 21\<rparr>"
  let ?e2 = "\<lparr>resetOngoing = True, bus = (), trace = [OpIsOnline 0x62, OpIsOnline 0x64],
             clock = 22\<rparr>"
  let ?e3 = "\<lparr>resetOngoing = False, bus = (),
             trace = [OpIsOnline 0x62, OpIsOnline 0x64, OpIsOnline 0x62, OpIsOnline 0x64],
             clock = 43\<rparr>"
  let ?e4 = "\<lparr>resetOngoing = False, bus = (),
             trace = [OpIsOnline 0x62, OpIsOnline 0x64, OpIsOnline 0x62, OpIsOnline 0x64,
                      OpWrite 0x64 0x1c 0x20],
             clock = 44\<rparr>"
  let ?l2 = "(sensor 0x64 RESET_PENDING 1 0)\<lparr>powered := True, timeReset := 22\<rparr>"
  let ?l3 = "(sensor 0x64 NEED_CONFIGURE 2 0)\<lparr>powered := True, timeReset := 22\<rparr>"
  let ?l4 = "(sensor 0x64 ACQUISITION_READY 2 0)\<lparr>powered := True, timeReset := 22\<rparr>"
  have t1: "spin_slot ?io (sensor 0x64 SHUTING_DOWN 0 0) (?e0\<lparr>clock := 21\<rparr>) =
              Some (sensor 0x64 NEED_RESET 1 0, ?e1)"
    by (simp add: spin_slot_def spin_case_def getState_def setState_def checkTimer_def
        postReset_def c nack_check_eq sensor_def)
  have t2: "spin_slot ?io (sensor 0x64 NEED_RESET 1 0) (?e1\<lparr>clock := 22\<rparr>) = Some (?l2, ?e2)"
    by (simp add: spin_slot_def spin_case_def getState_def setState_def preReset_def
        lidar_on_def timerUpdate_def nack_check_eq sensor_def)
  have t3: "spin_slot ?io ?l2 (?e2\<lparr>clock := 43\<rparr>) = Some (?l3, ?e3)"
    by (simp add: spin_slot_def spin_case_def getState_def setState_def checkTimer_def
        postReset_def c nack_check_eq sensor_def)
  have t4: "spin_slot ?io ?l3 (?e3\<lparr>clock := 44\<rparr>) = Some (?l4, ?e4)"
    by (simp add: spin_slot_def spin_case_def getState_def setState_def configure_def
        I2C_write_def w shouldIncrementNack_def nack_check_eq sensor_def)
  have "run ?io [Add 0 (sensor 0x64 NEED_RESET 0 0) 0, SpinOnce 21, SpinOnce 22, SpinOnce 43,
                 SpinOnce 44] (init_controller ()) =
        run ?io [SpinOnce 21, SpinOnce 22, SpinOnce 43, SpinOnce 44]
          \<lparr>lidars = Some (sensor 0x64 SHUTING_DOWN 0 0) # ?rest, count = 1, shared = ?e0\<rparr>"
    by (simp add: add_def at_time_def init_controller_def r8 resetLidar_def setState_def
        timerUpdate_def lidar_off_def sensor_def)
  also have "\<dots> = run ?io [SpinOnce 22, SpinOnce 43, SpinOnce 44]
          \<lparr>lidars = Some (sensor 0x64 NEED_RESET 1 0) # ?rest, count = 1, shared = ?e1\<rparr>"
    by (rule run_tick_one [OF t1])
  also have "\<dots> = run ?io [SpinOnce 43, SpinOnce 44]
          \<lparr>lidars = Some ?l2 # ?rest, count = 1, shared = ?e2\<rparr>"
    by (rule run_tick_one [OF t2])
  also have "\<dots> = run ?io [SpinOnce 44]
          \<lparr>lidars = Some ?l3 # ?rest, count = 1, shared = ?e3\<rparr>"
    by (rule run_tick_one [OF t3])
  also have "\<dots> = run ?io [] \<lparr>lidars = Some ?l4 # ?rest, count = 1, shared = ?e4\<rparr>"
    by (rule run_tick_one [OF t4])
  finally have "run ?io [Add 0 (sensor 0x64 NEED_RESET 0 0) 0, SpinOnce 21, SpinOnce 22,
                  SpinOnce 43, SpinOnce 44] (init_controller ()) =
        Some \<lparr>lidars = Some ?l4 # ?rest, count = 1, shared = ?e4\<rparr>"
    by simp
  moreover have "fst (changeAddress ?io (sensor 0x64 SHUTING_DOWN 0 0) shared0) = 5"
    by (simp add: c)
  ultimately show ?thesis
    by (simp add: sensor_def)
qed

end
